theory Spec2Isabelle
  imports Complex_Main "HOL-Library.Sublist"
begin

section \<open>The MCP SSE test client (mcp\_sse\_client.py)\<close>

text \<open>
  The client is one Python class, \<open>MCPSSEClient\<close>, and a \<open>main\<close> function driving it.
  Everything the program does beyond computing values is explicit here: the object
  \<open>self\<close>, the printed lines and the HTTP requests issued live in a state record that
  every method takes and returns; an exception is the left summand of a result.
  What the libraries (requests, sseclient, json, urllib) answer is a parameter of the
  model, the record \<open>env\<close>; so is whether a line can be written to standard output.
\<close>

subsection \<open>Values\<close>

text \<open>
  The values \<open>json.loads\<close> and \<open>response.json()\<close> produce. \<open>JNull\<close> is Python's
  \<open>None\<close>, \<open>JInt\<close> an \<open>int\<close>, \<open>JFloat\<close> a finite \<open>float\<close> (read as the real it
  denotes), \<open>JArr\<close> a \<open>list\<close>, and \<open>JObj kvs\<close> the \<open>dict\<close> whose items are \<open>kvs\<close>
  in insertion order (its keys distinct, looked up with \<open>map_of\<close>).
\<close>

datatype json =
    JNull
  | JBool bool
  | JInt int
  | JFloat real
  | JStr string
  | JArr "json list"
  | JObj "(string \<times> json) list"

text \<open>
  The exceptions that occur. \<open>HTTPError\<close> and \<open>ConnectionError\<close> are subclasses of
  \<open>requests.exceptions.RequestException\<close>; \<open>RequestsJSONDecodeError\<close> is
  \<open>requests.exceptions.JSONDecodeError\<close>, a subclass of both \<open>RequestException\<close> and
  \<open>json.JSONDecodeError\<close>; \<open>JSONDecodeError\<close> is \<open>json.JSONDecodeError\<close> itself.
  The others belong to neither class; \<open>UnicodeEncodeError\<close> is what \<open>print\<close> raises on
  text that the encoding of standard output cannot represent, such as a lone surrogate
  that \<open>json.loads\<close> produced from an escape. All of them are subclasses of \<open>Exception\<close>.
\<close>

datatype exn =
    HTTPError
  | ConnectionError
  | RequestsJSONDecodeError
  | JSONDecodeError
  | TypeError
  | AttributeError
  | KeyError
  | IndexError
  | ValueError
  | UnboundLocalError
  | UnicodeEncodeError
  | OtherException string

fun is_RequestException :: "exn \<Rightarrow> bool" where
  "is_RequestException HTTPError = True"
| "is_RequestException ConnectionError = True"
| "is_RequestException RequestsJSONDecodeError = True"
| "is_RequestException _ = False"

fun is_JSONDecodeError :: "exn \<Rightarrow> bool" where
  "is_JSONDecodeError RequestsJSONDecodeError = True"
| "is_JSONDecodeError JSONDecodeError = True"
| "is_JSONDecodeError _ = False"

subsection \<open>Python's operators on these values\<close>

text \<open>\<open>sub in s\<close> on two strings: \<open>sub\<close> occurs in \<open>s\<close> as a contiguous substring.\<close>

fun str_in :: "string \<Rightarrow> string \<Rightarrow> bool" where
  "str_in sub [] = (sub = [])"
| "str_in sub (c # cs) = (prefix sub (c # cs) \<or> str_in sub cs)"

text \<open>
  \<open>s.split(sep)\<close>: the pieces of \<open>s\<close> between the occurrences of \<open>sep\<close>, found from
  the left and not overlapping. \<open>split_from sep acc s\<close> scans \<open>s\<close> with the piece read so
  far in \<open>acc\<close>. An empty separator raises \<open>ValueError\<close>.
\<close>

function split_from :: "string \<Rightarrow> string \<Rightarrow> string \<Rightarrow> string list" where
  "split_from sep acc [] = [acc]"
| "split_from sep acc (c # cs) =
     (if sep \<noteq> [] \<and> prefix sep (c # cs)
      then acc # split_from sep [] (drop (length sep) (c # cs))
      else split_from sep (acc @ [c]) cs)"
  by pat_completeness auto
termination
  by (relation "measure (\<lambda>(sep, acc, s). length s)") auto

definition str_split :: "string \<Rightarrow> string \<Rightarrow> exn + string list" where
  "str_split s sep = (if sep = [] then Inl ValueError else Inr (split_from sep [] s))"

text \<open>\<open>xs[i]\<close> on a list, for \<open>i\<close> not negative: \<open>IndexError\<close> out of range.\<close>

definition py_index :: "'a list \<Rightarrow> nat \<Rightarrow> exn + 'a" where
  "py_index xs i = (if i < length xs then Inr (xs ! i) else Inl IndexError)"

text \<open>The truth value of an object, as \<open>if x:\<close> and \<open>x or y\<close> test it.\<close>

fun truthy :: "json \<Rightarrow> bool" where
  "truthy JNull = False"
| "truthy (JBool b) = b"
| "truthy (JInt i) = (i \<noteq> 0)"
| "truthy (JFloat r) = (r \<noteq> 0)"
| "truthy (JStr s) = (s \<noteq> [])"
| "truthy (JArr vs) = (vs \<noteq> [])"
| "truthy (JObj kvs) = (kvs \<noteq> [])"

text \<open>
  \<open>k in v\<close> for a string \<open>k\<close>: substring test on a string, membership in a list,
  key test on a dict, \<open>TypeError\<close> on everything else.
\<close>

fun py_in :: "string \<Rightarrow> json \<Rightarrow> exn + bool" where
  "py_in k (JStr s) = Inr (str_in k s)"
| "py_in k (JArr vs) = Inr (JStr k \<in> set vs)"
| "py_in k (JObj kvs) = Inr (map_of kvs k \<noteq> None)"
| "py_in k _ = Inl TypeError"

text \<open>\<open>v.get(k, d)\<close>: only a dict has the method.\<close>

fun py_get :: "json \<Rightarrow> string \<Rightarrow> json \<Rightarrow> exn + json" where
  "py_get (JObj kvs) k d = Inr (case map_of kvs k of None \<Rightarrow> d | Some v \<Rightarrow> v)"
| "py_get _ k d = Inl AttributeError"

text \<open>\<open>v[k]\<close> for a string \<open>k\<close>.\<close>

fun py_getitem :: "json \<Rightarrow> string \<Rightarrow> exn + json" where
  "py_getitem (JObj kvs) k = (case map_of kvs k of None \<Rightarrow> Inl KeyError | Some v \<Rightarrow> Inr v)"
| "py_getitem _ k = Inl TypeError"

text \<open>
  \<open>for x in v\<close>: the elements of a list, the keys of a dict, the characters of a
  string; nothing else is iterable.
\<close>

fun py_iter :: "json \<Rightarrow> exn + json list" where
  "py_iter (JArr vs) = Inr vs"
| "py_iter (JObj kvs) = Inr (map (\<lambda>kv. JStr (fst kv)) kvs)"
| "py_iter (JStr s) = Inr (map (\<lambda>c. JStr [c]) s)"
| "py_iter _ = Inl TypeError"

text \<open>\<open>v[0]\<close>. A dict built from JSON has string keys only, so \<open>0\<close> is never one.\<close>

fun py_first :: "json \<Rightarrow> exn + json" where
  "py_first (JArr vs) = py_index vs 0"
| "py_first (JStr s) = py_index (map (\<lambda>c. JStr [c]) s) 0"
| "py_first (JObj kvs) = Inl KeyError"
| "py_first _ = Inl TypeError"

subsection \<open>Output\<close>

text \<open>
  The lines the program prints, one constructor for each \<open>print\<close> of the source, with
  the values its f-string interpolates (the two banner lines that interpolate the
  constants of \<open>main\<close> carry none). In source order: the four banner lines of
  \<open>main\<close>; the lines of \<open>connect_sse\<close>; those of \<open>send_mcp_request\<close>; the headers of
  the four \<open>test_*\<close> methods; the verdicts of \<open>main\<close>.
\<close>

datatype line =
    Banner_Title
  | Banner_Server
  | Banner_Endpoint
  | Banner_Rule
  | Sse_Connecting string
  | Sse_Event string string
  | Sse_SessionId string
  | Sse_MessageUrl string
  | Sse_Error exn
  | Req_NoEndpoint
  | Req_Sending string
  | Req_Body json
  | Resp_Status int
  | Resp_Body json
  | Resp_NoContent int
  | Req_Error exn
  | Json_Error exn
  | Raw_Response string
  | Hdr_Initialize
  | Hdr_ListTools
  | Hdr_CallTool json
  | Hdr_CallToolAgent json string
  | Sse_Failed
  | Sse_Ok
  | Init_Ok
  | Init_Failed
  | List_Ok
  | List_Failed
  | Call_Ok json
  | Call_Failed json
  | Post_Ok json
  | Post_Failed json
  | Done

text \<open>
  \<open>print\<close> raises when the text cannot be encoded for standard output. Standard
  output is taken to encode the program's own text, which is not ASCII, and every
  number; what it does with text that comes from outside is left to the environment.
  A value holds no text when it is no string and no container with elements.
\<close>

fun no_text :: "json \<Rightarrow> bool" where
  "no_text (JStr s) = False"
| "no_text (JArr vs) = (vs = [])"
| "no_text (JObj kvs) = (kvs = [])"
| "no_text _ = True"

text \<open>
  The lines that are always written: those of fixed text, those that interpolate
  constants or numbers only, the request body (\<open>json.dumps\<close> escapes everything outside
  ASCII there) and a response body that holds no text. Every other line interpolates
  text that comes from the caller or from the server.
\<close>

fun plain :: "line \<Rightarrow> bool" where
  "plain Banner_Title = True"
| "plain Banner_Server = True"
| "plain Banner_Endpoint = True"
| "plain Banner_Rule = True"
| "plain Req_NoEndpoint = True"
| "plain (Req_Body v) = True"
| "plain (Resp_Status code) = True"
| "plain (Resp_Body v) = no_text v"
| "plain (Resp_NoContent code) = True"
| "plain Hdr_Initialize = True"
| "plain Hdr_ListTools = True"
| "plain Sse_Failed = True"
| "plain Sse_Ok = True"
| "plain Init_Ok = True"
| "plain Init_Failed = True"
| "plain List_Ok = True"
| "plain List_Failed = True"
| "plain Done = True"
| "plain _ = False"

subsection \<open>The environment\<close>

text \<open>
  An HTTP request as the program issues it: the URL, the JSON body of a POST, and
  the headers.
\<close>

datatype http_request =
    GET string "(string \<times> string) list"
  | POST string json "(string \<times> string) list"

text \<open>An event of the SSE stream, as \<open>sseclient\<close> yields it.\<close>

record sse_event =
  event :: string
  data :: string

text \<open>
  What the program reads of a \<open>requests.Response\<close>: \<open>status_code\<close>, \<open>content\<close>
  (the body's bytes), \<open>text\<close> (here \<open>text_of\<close>) and the outcome of \<open>json()\<close>.
\<close>

record response =
  status_code :: int
  content :: string
  text_of :: string
  json_result :: "exn + json"

text \<open>
  \<open>requests.get\<close> and \<open>requests.post\<close> raise or return a response. Of the response
  to the GET the program reads the status and the event stream; an \<open>Inl\<close> in the
  stream is the iterator raising at that point.
\<close>

datatype get_outcome = Get_Raises exn | Get_Response int "(exn + sse_event) list"

datatype post_outcome = Post_Raises exn | Post_Response response

text \<open>
  The libraries, the server and standard output. \<open>http_get\<close> and \<open>http_post\<close> answer
  the last request of the list they are given, which holds every request issued so
  far; \<open>urljoin\<close> is \<open>urllib.parse.urljoin\<close> (it raises \<open>ValueError\<close> on some
  malformed references) and \<open>json_loads\<close> is \<open>json.loads\<close>. \<open>encode_error\<close> tells, for
  a line that is not plain, what \<open>print\<close> raises on it, \<open>None\<close> when the line is
  written.
\<close>

record env =
  urljoin :: "string \<Rightarrow> string \<Rightarrow> exn + string"
  json_loads :: "string \<Rightarrow> exn + json"
  http_get :: "http_request list \<Rightarrow> get_outcome"
  http_post :: "http_request list \<Rightarrow> post_outcome"
  encode_error :: "line \<Rightarrow> exn option"

definition print_error :: "env \<Rightarrow> line \<Rightarrow> exn option" where
  "print_error env l = (if plain l then None else encode_error env l)"

text \<open>
  \<open>Response.raise_for_status()\<close> of requests raises \<open>HTTPError\<close> exactly for the
  client and server error codes, 400 to 599.
\<close>

definition raise_for_status :: "int \<Rightarrow> bool" where
  "raise_for_status code \<longleftrightarrow> 400 \<le> code \<and> code < 600"

subsection \<open>The client and the program state\<close>

record client =
  base_url :: string
  endpoint_id :: string
  sse_url :: string
  session_id :: "string option"
  message_url :: "string option"

definition MCPSSEClient :: "string \<Rightarrow> string \<Rightarrow> client" where
  "MCPSSEClient b e =
     \<lparr>base_url = b, endpoint_id = e, sse_url = b @ ''/mcp/'' @ e @ ''/sse'',
      session_id = None, message_url = None\<rparr>"

text \<open>
  The state: the client object, the lines printed so far and the requests issued so
  far, both oldest first.
\<close>

record state =
  self :: client
  out :: "line list"
  sent :: "http_request list"

definition print_line :: "line \<Rightarrow> state \<Rightarrow> state" where
  "print_line l s = s\<lparr>out := out s @ [l]\<rparr>"

definition issue :: "http_request \<Rightarrow> state \<Rightarrow> state" where
  "issue r s = s\<lparr>sent := sent s @ [r]\<rparr>"

text \<open>
  A computation that may raise: it returns the exception or a value, and the state
  it leaves. \<open>catch_io m h\<close> is \<open>try: m except Exception as e: h e\<close>.
\<close>

type_synonym 'a io = "state \<Rightarrow> (exn + 'a) \<times> state"

definition return_io :: "'a \<Rightarrow> 'a io" where
  "return_io x s = (Inr x, s)"

definition lift_io :: "exn + 'a \<Rightarrow> 'a io" where
  "lift_io r s = (r, s)"

definition bind_io :: "'a io \<Rightarrow> ('a \<Rightarrow> 'b io) \<Rightarrow> 'b io" where
  "bind_io m f s = (case m s of (Inl e, s') \<Rightarrow> (Inl e, s') | (Inr x, s') \<Rightarrow> f x s')"

definition catch_io :: "'a io \<Rightarrow> (exn \<Rightarrow> 'a io) \<Rightarrow> 'a io" where
  "catch_io m h s = (case m s of (Inl e, s') \<Rightarrow> h e s' | (Inr x, s') \<Rightarrow> (Inr x, s'))"

text \<open>\<open>print\<close>: the line is written, or nothing is written and the call raises.\<close>

definition print_io :: "env \<Rightarrow> line \<Rightarrow> unit io" where
  "print_io env l s =
     (case print_error env l of
        None \<Rightarrow> (Inr (), print_line l s)
      | Some e \<Rightarrow> (Inl e, s))"

subsection \<open>connect\_sse\<close>

definition sse_request :: "client \<Rightarrow> http_request" where
  "sse_request c =
     GET (sse_url c) [(''Accept'', ''text/event-stream''), (''Cache-Control'', ''no-cache'')]"

text \<open>
  The two assignments, the two prints and the \<open>return True\<close>, reached when
  \<open>'session_id=' in relative_uri\<close> holds. Only a string has \<open>split\<close>. The session
  identifier is assigned before \<open>urljoin\<close> is called, and both assignments are made
  before the prints.
\<close>

definition store_endpoint :: "env \<Rightarrow> json \<Rightarrow> bool io" where
  "store_endpoint env relative_uri s =
     (case relative_uri of
        JStr u \<Rightarrow>
          (case str_split u ''session_id='' of
             Inl e \<Rightarrow> (Inl e, s)
           | Inr parts \<Rightarrow>
               (case py_index parts 1 of
                  Inl e \<Rightarrow> (Inl e, s)
                | Inr sid \<Rightarrow>
                    (let s1 = s\<lparr>self := (self s)\<lparr>session_id := Some sid\<rparr>\<rparr> in
                     case urljoin env (base_url (self s1)) u of
                       Inl e \<Rightarrow> (Inl e, s1)
                     | Inr url \<Rightarrow>
                         (let s2 = s1\<lparr>self := (self s1)\<lparr>message_url := Some url\<rparr>\<rparr> in
                          bind_io (print_io env (Sse_SessionId sid)) (\<lambda>u.
                          bind_io (print_io env (Sse_MessageUrl url)) (\<lambda>u.
                          return_io True)) s2))))
      | _ \<Rightarrow> (Inl AttributeError, s))"

text \<open>
  The body of the loop for one event, after its line is printed; the \<open>break\<close> leads
  to the final \<open>return False\<close>.
\<close>

definition first_event :: "env \<Rightarrow> sse_event \<Rightarrow> bool io" where
  "first_event env ev =
     (if event ev = ''endpoint'' then
        bind_io (lift_io (json_loads env (data ev))) (\<lambda>endpoint_data.
        bind_io (lift_io (py_get endpoint_data ''uri'' JNull)) (\<lambda>relative_uri.
        if truthy relative_uri then
          bind_io (lift_io (py_in ''session_id='' relative_uri)) (\<lambda>found.
          if found then store_endpoint env relative_uri else return_io False)
        else return_io False))
      else return_io False)"

text \<open>The \<open>try\<close> block: an \<open>Inl\<close> is an exception raised inside it.\<close>

definition sse_try :: "env \<Rightarrow> bool io" where
  "sse_try env s =
     (let s1 = issue (sse_request (self s)) s in
      case http_get env (sent s1) of
        Get_Raises e \<Rightarrow> (Inl e, s1)
      | Get_Response status events \<Rightarrow>
          if raise_for_status status then (Inl HTTPError, s1)
          else
            (case events of
               [] \<Rightarrow> (Inr False, s1)
             | Inl e # rest \<Rightarrow> (Inl e, s1)
             | Inr ev # rest \<Rightarrow>
                 bind_io (print_io env (Sse_Event (event ev) (data ev))) (\<lambda>u.
                 first_event env ev) s1))"

text \<open>
  The first print stands before the \<open>try\<close>; the handler prints the exception and
  returns \<open>False\<close>, and what its own print raises is not caught.
\<close>

definition connect_sse :: "env \<Rightarrow> bool io" where
  "connect_sse env s =
     bind_io (print_io env (Sse_Connecting (sse_url (self s)))) (\<lambda>u.
     catch_io (sse_try env) (\<lambda>e.
       bind_io (print_io env (Sse_Error e)) (\<lambda>u. return_io False))) s"

subsection \<open>send\_mcp\_request and the test methods\<close>

text \<open>\<open>params or {}\<close> for an optional dict.\<close>

definition or_empty :: "(string \<times> json) list option \<Rightarrow> (string \<times> json) list" where
  "or_empty params = (case params of None \<Rightarrow> [] | Some p \<Rightarrow> if p \<noteq> [] then p else [])"

definition mcp_request :: "string \<Rightarrow> (string \<times> json) list option \<Rightarrow> int \<Rightarrow> json" where
  "mcp_request method params request_id =
     JObj [(''jsonrpc'', JStr ''2.0''),
           (''id'', JInt request_id),
           (''method'', JStr method),
           (''params'', JObj (or_empty params))]"

text \<open>
  The two handlers of \<open>send_mcp_request\<close>, tried in order; an exception of neither
  class propagates, and so does what a print inside a handler raises. \<open>resp\<close> is the
  response when \<open>requests.post\<close> has returned one: the second handler reads
  \<open>response.text\<close>, and the name is unbound otherwise.
\<close>

definition request_failed :: "env \<Rightarrow> exn \<Rightarrow> response option \<Rightarrow> json io" where
  "request_failed env e resp =
     (if is_RequestException e then
        bind_io (print_io env (Req_Error e)) (\<lambda>u. return_io JNull)
      else if is_JSONDecodeError e then
        bind_io (print_io env (Json_Error e)) (\<lambda>u.
        case resp of
          None \<Rightarrow> lift_io (Inl UnboundLocalError)
        | Some r \<Rightarrow> bind_io (print_io env (Raw_Response (text_of r))) (\<lambda>u. return_io JNull))
      else lift_io (Inl e))"

text \<open>The part of the \<open>try\<close> block that follows the POST.\<close>

definition read_response :: "env \<Rightarrow> response \<Rightarrow> json io" where
  "read_response env r =
     (if raise_for_status (status_code r) then lift_io (Inl HTTPError)
      else if content r \<noteq> [] then
        bind_io (lift_io (json_result r)) (\<lambda>result.
        bind_io (print_io env (Resp_Status (status_code r))) (\<lambda>u.
        bind_io (print_io env (Resp_Body result)) (\<lambda>u.
        return_io result)))
      else
        bind_io (print_io env (Resp_NoContent (status_code r))) (\<lambda>u.
        return_io (JObj [(''status'', JStr ''success''),
                         (''status_code'', JInt (status_code r))])))"

text \<open>The \<open>try\<close> statement: the POST, the reading of the answer, the handlers.\<close>

definition exchange :: "env \<Rightarrow> string \<Rightarrow> json \<Rightarrow> json io" where
  "exchange env url body s =
     (let s1 = issue (POST url body [(''Content-Type'', ''application/json'')]) s in
      case http_post env (sent s1) of
        Post_Raises e \<Rightarrow> request_failed env e None s1
      | Post_Response r \<Rightarrow>
          catch_io (read_response env r) (\<lambda>e. request_failed env e (Some r)) s1)"

definition send_mcp_request ::
  "env \<Rightarrow> string \<Rightarrow> (string \<times> json) list option \<Rightarrow> int \<Rightarrow> json io" where
  "send_mcp_request env method params request_id s =
     (case message_url (self s) of
        None \<Rightarrow> bind_io (print_io env Req_NoEndpoint) (\<lambda>u. return_io JNull) s
      | Some url \<Rightarrow>
          if url = [] then bind_io (print_io env Req_NoEndpoint) (\<lambda>u. return_io JNull) s
          else
            bind_io (print_io env (Req_Sending url)) (\<lambda>u.
            bind_io (print_io env (Req_Body (mcp_request method params request_id))) (\<lambda>u.
            exchange env url (mcp_request method params request_id))) s)"

definition test_initialize :: "env \<Rightarrow> json io" where
  "test_initialize env =
     bind_io (print_io env Hdr_Initialize) (\<lambda>u.
     send_mcp_request env ''initialize''
       (Some [(''protocolVersion'', JStr ''2024-11-05''),
              (''capabilities'', JObj []),
              (''clientInfo'', JObj [(''name'', JStr ''mcp-sse-test-client''),
                                     (''version'', JStr ''1.0.0'')])])
       1)"

definition test_list_tools :: "env \<Rightarrow> json io" where
  "test_list_tools env =
     bind_io (print_io env Hdr_ListTools) (\<lambda>u. send_mcp_request env ''tools/list'' None 1)"

text \<open>
  \<open>main\<close> passes whatever the tool's \<open>name\<close> field holds as \<open>tool_name\<close>, so it is a
  JSON value here.
\<close>

definition test_call_tool :: "env \<Rightarrow> json \<Rightarrow> (string \<times> json) list option \<Rightarrow> json io" where
  "test_call_tool env tool_name arguments =
     bind_io (print_io env (Hdr_CallTool tool_name)) (\<lambda>u.
     send_mcp_request env ''tools/call''
       (Some [(''name'', tool_name), (''arguments'', JObj (or_empty arguments))])
       1)"

definition test_call_tool_with_agent_id :: "env \<Rightarrow> json \<Rightarrow> string \<Rightarrow> json io" where
  "test_call_tool_with_agent_id env tool_name agent_id =
     bind_io (print_io env (Hdr_CallToolAgent tool_name agent_id)) (\<lambda>u.
     send_mcp_request env ''tools/call''
       (Some [(''name'', tool_name), (''arguments'', JObj [(''agentId'', JStr agent_id)])])
       1)"

subsection \<open>main\<close>

definition BASE_URL :: string where
  "BASE_URL = ''http://localhost:3000''"

definition ENDPOINT_ID :: string where
  "ENDPOINT_ID = ''2764a1cc-4513-4726-ae88-05d33d164493''"

text \<open>
  The two search loops: the first tool whose \<open>tool.get('name', '')\<close> contains \<open>sub\<close>,
  or \<open>None\<close>. The loop stops at the first match, so a later element is not looked at.
\<close>

fun scan_tools :: "string \<Rightarrow> json list \<Rightarrow> exn + json" where
  "scan_tools sub [] = Inr JNull"
| "scan_tools sub (tool # rest) =
     (case py_get tool ''name'' (JStr []) of
        Inl e \<Rightarrow> Inl e
      | Inr name \<Rightarrow>
          (case py_in sub name of
             Inl e \<Rightarrow> Inl e
           | Inr found \<Rightarrow> if found then Inr tool else scan_tools sub rest))"

definition find_tool_named :: "string \<Rightarrow> json \<Rightarrow> exn + json" where
  "find_tool_named sub tools =
     (case py_iter tools of Inl e \<Rightarrow> Inl e | Inr ts \<Rightarrow> scan_tools sub ts)"

text \<open>
  The statement that follows each step, \<open>if result: print(ok) else: print(failed)\<close>:
  the verdict depends on the truth value of what the step returned.
\<close>

definition verdict :: "env \<Rightarrow> json \<Rightarrow> line \<Rightarrow> line \<Rightarrow> unit io" where
  "verdict env result ok failed = print_io env (if truthy result then ok else failed)"

text \<open>The branch \<open>if find_tool:\<close>.\<close>

definition call_find_tool :: "env \<Rightarrow> json \<Rightarrow> unit io" where
  "call_find_tool env find_tool =
     bind_io (lift_io (py_get find_tool ''name'' JNull)) (\<lambda>tool_name.
     bind_io (test_call_tool_with_agent_id env tool_name
                ''98e2b1cf-3a7d-4f6c-9b0a-5d8c7e6f5432'') (\<lambda>call_result.
     verdict env call_result (Call_Ok tool_name) (Call_Failed tool_name)))"

text \<open>The branch \<open>if save_tool:\<close>.\<close>

definition call_save_tool :: "env \<Rightarrow> json \<Rightarrow> unit io" where
  "call_save_tool env save_tool =
     bind_io (lift_io (py_get save_tool ''name'' JNull)) (\<lambda>tool_name.
     bind_io (test_call_tool env tool_name
                (Some [(''body'', JObj
                   [(''agentId'', JStr ''98e2b1cf-3a7d-4f6c-9b0a-5d8c7e6f5432''),
                    (''botId'', JStr ''test-bot-123''),
                    (''appId'', JStr ''cli_a5f8e3d9b7c401ab'')])])) (\<lambda>call_result.
     verdict env call_result (Post_Ok tool_name) (Post_Failed tool_name)))"

text \<open>Its \<open>else\<close> branch: the first tool, called when its name is true.\<close>

definition call_first_tool :: "env \<Rightarrow> json \<Rightarrow> unit io" where
  "call_first_tool env tools =
     bind_io (lift_io (py_first tools)) (\<lambda>first_tool.
     bind_io (lift_io (py_get first_tool ''name'' JNull)) (\<lambda>tool_name.
     if truthy tool_name then
       bind_io (test_call_tool env tool_name None) (\<lambda>call_result.
       verdict env call_result (Call_Ok tool_name) (Call_Failed tool_name))
     else return_io ()))"

text \<open>The body of \<open>if tools:\<close>.\<close>

definition select_tools :: "env \<Rightarrow> json \<Rightarrow> unit io" where
  "select_tools env tools =
     bind_io (lift_io (find_tool_named ''findByAgentId'' tools)) (\<lambda>find_tool.
     bind_io (if truthy find_tool then call_find_tool env find_tool else return_io ()) (\<lambda>u.
     bind_io (lift_io (find_tool_named ''save'' tools)) (\<lambda>save_tool.
     if truthy save_tool then call_save_tool env save_tool
     else call_first_tool env tools)))"

text \<open>
  The condition \<open>'result' in tools_result and 'tools' in tools_result['result']\<close>;
  \<open>and\<close> evaluates its right operand only when the left one is true.
\<close>

definition has_result_tools :: "json \<Rightarrow> exn + bool" where
  "has_result_tools tools_result =
     (case py_in ''result'' tools_result of
        Inl e \<Rightarrow> Inl e
      | Inr has_result \<Rightarrow>
          if has_result then
            (case py_getitem tools_result ''result'' of
               Inl e \<Rightarrow> Inl e
             | Inr result \<Rightarrow> py_in ''tools'' result)
          else Inr False)"

text \<open>The statement \<open>if tools_result: ... else: ...\<close> that follows the tools/list call.\<close>

definition after_list_tools :: "env \<Rightarrow> json \<Rightarrow> unit io" where
  "after_list_tools env tools_result =
     (if truthy tools_result then
        bind_io (print_io env List_Ok) (\<lambda>u.
        bind_io (lift_io (has_result_tools tools_result)) (\<lambda>present.
        if present then
          bind_io (lift_io (py_getitem tools_result ''result'')) (\<lambda>result.
          bind_io (lift_io (py_getitem result ''tools'')) (\<lambda>tools.
          if truthy tools then select_tools env tools else return_io ()))
        else return_io ()))
      else print_io env List_Failed)"

text \<open>The steps of \<open>main\<close> after a successful handshake.\<close>

definition run_tests :: "env \<Rightarrow> unit io" where
  "run_tests env =
     bind_io (print_io env Sse_Ok) (\<lambda>u.
     bind_io (test_initialize env) (\<lambda>init_result.
     bind_io (verdict env init_result Init_Ok Init_Failed) (\<lambda>u.
     bind_io (test_list_tools env) (\<lambda>tools_result.
     bind_io (after_list_tools env tools_result) (\<lambda>u.
     print_io env Done)))))"

text \<open>
  \<open>main\<close> starts with nothing printed and nothing sent; it returns normally or raises,
  and leaves the final state.
\<close>

definition start :: state where
  "start =
     \<lparr>self = MCPSSEClient BASE_URL ENDPOINT_ID,
      out = [Banner_Title, Banner_Server, Banner_Endpoint, Banner_Rule],
      sent = []\<rparr>"

definition main :: "env \<Rightarrow> (exn + unit) \<times> state" where
  "main env =
     bind_io (connect_sse env) (\<lambda>ok.
       if \<not> ok then print_io env Sse_Failed else run_tests env) start"

subsection \<open>Example environments\<close>

text \<open>
  A scripted server for running the program on concrete inputs. \<open>join_path\<close> stands
  in for \<open>urljoin\<close> where the base has no path and the reference is an absolute path;
  \<open>json.loads\<close> yields \<open>endpoint_json\<close> for the event's data; the GET is answered with
  \<open>status\<close> and \<open>events\<close>; the n-th POST is answered with the n-th of \<open>replies\<close>, and
  the connection is refused when they are used up; every line is written.
\<close>

definition join_path :: "string \<Rightarrow> string \<Rightarrow> exn + string" where
  "join_path b u = Inr (b @ u)"

fun is_POST :: "http_request \<Rightarrow> bool" where
  "is_POST (POST url body headers) = True"
| "is_POST (GET url headers) = False"

definition mock_server ::
  "(string \<Rightarrow> string \<Rightarrow> exn + string) \<Rightarrow> json \<Rightarrow> int \<Rightarrow> (exn + sse_event) list \<Rightarrow>
   post_outcome list \<Rightarrow> env" where
  "mock_server uj endpoint_json status events replies =
     \<lparr>urljoin = uj,
      json_loads = (\<lambda>d. Inr endpoint_json),
      http_get = (\<lambda>h. Get_Response status events),
      http_post = (\<lambda>h. case drop (length (filter is_POST h) - 1) replies of
                          [] \<Rightarrow> Post_Raises ConnectionError
                        | r # rs \<Rightarrow> r),
      encode_error = (\<lambda>l. None)\<rparr>"

definition endpoint_event :: sse_event where
  "endpoint_event = \<lparr>event = ''endpoint'', data = ''(data)''\<rparr>"

text \<open>A 200 response whose body parses to \<open>v\<close>, and a response with an empty body.\<close>

definition reply :: "json \<Rightarrow> post_outcome" where
  "reply v = Post_Response
     \<lparr>status_code = 200, content = ''(body)'', text_of = ''(body)'', json_result = Inr v\<rparr>"

definition empty_reply :: "int \<Rightarrow> post_outcome" where
  "empty_reply code = Post_Response
     \<lparr>status_code = code, content = [], text_of = [], json_result = Inl JSONDecodeError\<rparr>"

text \<open>The state after the handshake of the specification's end-to-end scenario.\<close>

definition ready :: state where
  "ready =
     \<lparr>self = (MCPSSEClient BASE_URL ENDPOINT_ID)
        \<lparr>session_id := Some ''abc123'',
         message_url := Some ''http://localhost:3000/msg?session_id=abc123''\<rparr>,
      out = [], sent = []\<rparr>"

text \<open>
  The server of the specification's end-to-end scenario, answering initialize with
  an empty result, tools/list with \<open>listing\<close> and every later call with an empty
  result.
\<close>

definition scenario :: "json \<Rightarrow> env" where
  "scenario listing =
     mock_server join_path (JObj [(''uri'', JStr ''/msg?session_id=abc123'')]) 200
       [Inr endpoint_event]
       [reply (JObj [(''result'', JObj [])]),
        reply listing,
        reply (JObj [(''result'', JObj [])]),
        reply (JObj [(''result'', JObj [])])]"

text \<open>
  An environment in which \<open>print\<close> raises \<open>UnicodeEncodeError\<close> on the lines that
  \<open>bad\<close> picks among those that are not plain.
\<close>

definition unwritable :: "(line \<Rightarrow> bool) \<Rightarrow> env \<Rightarrow> env" where
  "unwritable bad env =
     env\<lparr>encode_error := (\<lambda>l. if bad l then Some UnicodeEncodeError else None)\<rparr>"

fun is_session_line :: "line \<Rightarrow> bool" where
  "is_session_line (Sse_SessionId sid) = True"
| "is_session_line _ = False"

subsection \<open>Vocabulary for the tool selection\<close>

text \<open>
  Names for what the statements about \<open>select_tools\<close> speak of; the program does not
  use them. A tool descriptor is an object whose \<open>name\<close>, when it has one, is a string;
  it is nameless when it has no \<open>name\<close> field. \<open>tool_name\<close> is the name of a
  descriptor, empty when there is none. \<open>first_named sub ts\<close> is the first tool of
  \<open>ts\<close> whose name contains \<open>sub\<close>. \<open>tools_call url name arguments\<close> is the request of
  a \<open>tools/call\<close> for the tool \<open>name\<close>.
\<close>

definition descriptor :: "json \<Rightarrow> bool" where
  "descriptor t =
     (case t of
        JObj kvs \<Rightarrow>
          (case map_of kvs ''name'' of None \<Rightarrow> True | Some (JStr n) \<Rightarrow> True | Some v \<Rightarrow> False)
      | _ \<Rightarrow> False)"

definition nameless :: "json \<Rightarrow> bool" where
  "nameless t = (case t of JObj kvs \<Rightarrow> map_of kvs ''name'' = None | _ \<Rightarrow> False)"

definition tool_name :: "json \<Rightarrow> string" where
  "tool_name t =
     (case t of
        JObj kvs \<Rightarrow> (case map_of kvs ''name'' of Some (JStr n) \<Rightarrow> n | _ \<Rightarrow> [])
      | _ \<Rightarrow> [])"

definition first_named :: "string \<Rightarrow> json list \<Rightarrow> json option" where
  "first_named sub ts = find (\<lambda>t. str_in sub (tool_name t)) ts"

definition tools_call :: "string \<Rightarrow> string \<Rightarrow> (string \<times> json) list \<Rightarrow> http_request" where
  "tools_call url name arguments =
     POST url
       (JObj [(''jsonrpc'', JStr ''2.0''), (''id'', JInt 1), (''method'', JStr ''tools/call''),
              (''params'', JObj [(''name'', JStr name), (''arguments'', JObj arguments)])])
       [(''Content-Type'', ''application/json'')]"

definition agent_arguments :: "(string \<times> json) list" where
  "agent_arguments = [(''agentId'', JStr ''98e2b1cf-3a7d-4f6c-9b0a-5d8c7e6f5432'')]"

definition body_arguments :: "(string \<times> json) list" where
  "body_arguments =
     [(''body'', JObj [(''agentId'', JStr ''98e2b1cf-3a7d-4f6c-9b0a-5d8c7e6f5432''),
                       (''botId'', JStr ''test-bot-123''),
                       (''appId'', JStr ''cli_a5f8e3d9b7c401ab'')])]"

section \<open>Properties\<close>

subsection \<open>Strings\<close>

lemma str_in_iff: "str_in sub s \<longleftrightarrow> (\<exists>pre suf. s = pre @ sub @ suf)"
proof (induction s)
  case Nil
  then show ?case by auto
next
  case (Cons c cs)
  show ?case
  proof
    assume "str_in sub (c # cs)"
    then consider "prefix sub (c # cs)" | "str_in sub cs" by auto
    then show "\<exists>pre suf. c # cs = pre @ sub @ suf"
    proof cases
      case 1
      then obtain suf where "c # cs = sub @ suf" by (auto simp: prefix_def)
      then have "c # cs = [] @ sub @ suf" by simp
      then show ?thesis by blast
    next
      case 2
      then obtain pre suf where "cs = pre @ sub @ suf" using Cons.IH by blast
      then have "c # cs = (c # pre) @ sub @ suf" by simp
      then show ?thesis by blast
    qed
  next
    assume "\<exists>pre suf. c # cs = pre @ sub @ suf"
    then obtain pre suf where e: "c # cs = pre @ sub @ suf" by blast
    show "str_in sub (c # cs)"
    proof (cases pre)
      case Nil
      with e have "prefix sub (c # cs)" by (simp add: prefix_def)
      then show ?thesis by simp
    next
      case (Cons p ps)
      with e have "cs = ps @ sub @ suf" by simp
      then have "str_in sub cs" using Cons.IH by blast
      then show ?thesis by simp
    qed
  qed
qed

lemma split_from_none: "\<not> str_in sep s \<Longrightarrow> split_from sep acc s = [acc @ s]"
proof (induction s arbitrary: acc)
  case Nil
  then show ?case by simp
next
  case (Cons c cs)
  then have "\<not> prefix sep (c # cs)" and "\<not> str_in sep cs" by auto
  then show ?case using Cons.IH [of "acc @ [c]"] by simp
qed

lemma split_from_first:
  assumes "sep \<noteq> []" and "\<not> str_in sep (pre @ butlast sep)"
  shows "split_from sep acc (pre @ sep @ rest) = (acc @ pre) # split_from sep [] rest"
  using assms(2)
proof (induction pre arbitrary: acc)
  case Nil
  obtain c cs where eq: "sep @ rest = c # cs" using assms(1) by (cases sep) auto
  have "prefix sep (c # cs)" using eq by (metis prefixI)
  then have "split_from sep acc (c # cs) = acc # split_from sep [] (drop (length sep) (c # cs))"
    using assms(1) by simp
  moreover have "drop (length sep) (c # cs) = rest" using eq by (metis append_eq_conv_conj)
  ultimately show ?case using eq by simp
next
  case (Cons p ps)
  have np: "\<not> prefix sep (p # ps @ sep @ rest)"
  proof
    assume pr: "prefix sep (p # ps @ sep @ rest)"
    have "length sep \<le> length (p # ps @ butlast sep)" by simp
    moreover have "p # ps @ sep @ rest = (p # ps @ butlast sep) @ (last sep # rest)"
      using assms(1) by simp
    ultimately have "prefix sep (p # ps @ butlast sep)"
      using pr by (metis prefix_length_prefix prefixI le_refl prefix_order.dual_order.refl prefix_append)
    then have "str_in sep ((p # ps) @ butlast sep)" by simp
    with Cons.prems show False by simp
  qed
  have "\<not> str_in sep (ps @ butlast sep)" using Cons.prems by simp
  then have "split_from sep (acc @ [p]) (ps @ sep @ rest) = ((acc @ [p]) @ ps) # split_from sep [] rest"
    by (rule Cons.IH)
  then show ?case using np by simp
qed

lemma str_in_no_overlap:
  assumes "sep \<noteq> []" and "last sep \<notin> set t" and "\<not> str_in sep pre"
  shows "\<not> str_in sep (pre @ t)"
proof
  assume "str_in sep (pre @ t)"
  then obtain a b where e: "pre @ t = (a @ sep) @ b"
    by (auto simp: str_in_iff)
  then obtain us where
    "(pre = (a @ sep) @ us \<and> us @ t = b) \<or> (pre @ us = a @ sep \<and> t = us @ b)"
    unfolding append_eq_append_conv2 by blast
  then show False
  proof
    assume "pre = (a @ sep) @ us \<and> us @ t = b"
    then have "pre = a @ sep @ us" by simp
    then have "str_in sep pre" unfolding str_in_iff by blast
    with assms(3) show False by simp
  next
    assume h: "pre @ us = a @ sep \<and> t = us @ b"
    show False
    proof (cases "us = []")
      case True
      with h have "pre = a @ sep @ []" by simp
      then have "str_in sep pre" unfolding str_in_iff by blast
      with assms(3) show False by simp
    next
      case False
      with h have "last us = last (a @ sep)" by (metis last_appendR)
      then have "last us = last sep" using assms(1) by simp
      moreover have "last us \<in> set us" using False by simp
      ultimately have "last sep \<in> set (us @ b)" by auto
      with h assms(2) show False by simp
    qed
  qed
qed

lemma session_id_first:
  "\<not> str_in ''session_id='' pre \<Longrightarrow> \<not> str_in ''session_id='' (pre @ ''session_id'')"
  by (rule str_in_no_overlap) simp_all

text \<open>
  The piece that \<open>split('session_id=')[1]\<close> selects: what stands between the first
  occurrence of the separator and the next one, or the end.
\<close>

lemma split_session_id:
  assumes "\<not> str_in ''session_id='' pre" and "\<not> str_in ''session_id='' rest"
  shows "str_split (pre @ ''session_id='' @ rest) ''session_id='' = Inr [pre, rest]"
proof -
  have "\<not> str_in ''session_id='' (pre @ butlast ''session_id='')"
    using session_id_first [OF assms(1)] by simp
  then have "split_from ''session_id='' [] (pre @ ''session_id='' @ rest) =
      ([] @ pre) # split_from ''session_id='' [] rest"
    by (intro split_from_first) simp_all
  then show ?thesis using split_from_none [OF assms(2), of "[]"] by (simp add: str_split_def)
qed

subsection \<open>The state\<close>

lemma or_empty_eq: "or_empty P = (case P of None \<Rightarrow> [] | Some p \<Rightarrow> p)"
  by (simp add: or_empty_def split: option.splits)

lemma sent_print_line: "sent (print_line l s) = sent s"
  by (simp add: print_line_def)

lemma self_print_line: "self (print_line l s) = self s"
  by (simp add: print_line_def)

lemma out_print_line: "out (print_line l s) = out s @ [l]"
  by (simp add: print_line_def)

lemma sent_issue: "sent (issue r s) = sent s @ [r]"
  by (simp add: issue_def)

lemma self_issue: "self (issue r s) = self s"
  by (simp add: issue_def)

lemma out_issue: "out (issue r s) = out s"
  by (simp add: issue_def)

text \<open>What \<open>print\<close> does: a plain line is written; any other may raise instead.\<close>

lemma print_io_written:
  "print_error env l = None \<Longrightarrow> print_io env l s = (Inr (), print_line l s)"
  by (simp add: print_io_def)

lemma print_io_plain: "plain l \<Longrightarrow> print_io env l s = (Inr (), print_line l s)"
  by (simp add: print_io_def print_error_def)

lemma print_io_raises: "print_error env l = Some e \<Longrightarrow> print_io env l s = (Inl e, s)"
  by (simp add: print_io_def)

lemma print_io_Inr_iff: "fst (print_io env l s) = Inr x \<longleftrightarrow> print_error env l = None"
  by (simp add: print_io_def split: option.splits)

lemma bind_io_Inr: "m s = (Inr x, s') \<Longrightarrow> bind_io m f s = f x s'"
  by (simp add: bind_io_def)

lemma bind_io_Inl: "m s = (Inl e, s') \<Longrightarrow> bind_io m f s = (Inl e, s')"
  by (simp add: bind_io_def)

lemma bind_io_lift_Inr: "bind_io (lift_io (Inr x)) f = f x"
  by (rule ext) (simp add: bind_io_def lift_io_def)

lemma bind_io_lift_Inl: "bind_io (lift_io (Inl e)) f s = (Inl e, s)"
  by (simp add: bind_io_def lift_io_def)

lemma bind_io_return: "bind_io (return_io x) f = f x"
  by (rule ext) (simp add: bind_io_def return_io_def)

lemma bind_io_print_plain: "plain l \<Longrightarrow> bind_io (print_io env l) f s = f () (print_line l s)"
  by (simp add: bind_io_def print_io_plain)

lemma bind_io_print_written:
  "print_error env l = None \<Longrightarrow> bind_io (print_io env l) f s = f () (print_line l s)"
  by (simp add: bind_io_def print_io_written)

lemma bind_io_print_raises:
  "print_error env l = Some e \<Longrightarrow> bind_io (print_io env l) f s = (Inl e, s)"
  by (simp add: bind_io_def print_io_raises)

text \<open>Three things a computation can leave alone, and how that composes.\<close>

lemma self_bind_io:
  assumes "\<And>s. self (snd (m s)) = self s" and "\<And>x s. self (snd (f x s)) = self s"
  shows "self (snd (bind_io m f s)) = self s"
proof (cases "m s")
  case (Pair r s')
  then have "self s' = self s" using assms(1) [of s] by simp
  then show ?thesis using Pair assms(2) by (cases r) (simp_all add: bind_io_def)
qed

lemma self_catch_io:
  assumes "\<And>s. self (snd (m s)) = self s" and "\<And>e s. self (snd (h e s)) = self s"
  shows "self (snd (catch_io m h s)) = self s"
proof (cases "m s")
  case (Pair r s')
  then have "self s' = self s" using assms(1) [of s] by simp
  then show ?thesis using Pair assms(2) by (cases r) (simp_all add: catch_io_def)
qed

lemma self_simple_io:
  "self (snd (lift_io r s)) = self s"
  "self (snd (return_io x s)) = self s"
  "self (snd (print_io env l s)) = self s"
  by (simp_all add: lift_io_def return_io_def print_io_def self_print_line split: option.splits)

lemma sent_bind_io:
  assumes "\<And>s. sent (snd (m s)) = sent s" and "\<And>x s. sent (snd (f x s)) = sent s"
  shows "sent (snd (bind_io m f s)) = sent s"
proof (cases "m s")
  case (Pair r s')
  then have "sent s' = sent s" using assms(1) [of s] by simp
  then show ?thesis using Pair assms(2) by (cases r) (simp_all add: bind_io_def)
qed

lemma sent_catch_io:
  assumes "\<And>s. sent (snd (m s)) = sent s" and "\<And>e s. sent (snd (h e s)) = sent s"
  shows "sent (snd (catch_io m h s)) = sent s"
proof (cases "m s")
  case (Pair r s')
  then have "sent s' = sent s" using assms(1) [of s] by simp
  then show ?thesis using Pair assms(2) by (cases r) (simp_all add: catch_io_def)
qed

lemma sent_simple_io:
  "sent (snd (lift_io r s)) = sent s"
  "sent (snd (return_io x s)) = sent s"
  "sent (snd (print_io env l s)) = sent s"
  by (simp_all add: lift_io_def return_io_def print_io_def sent_print_line split: option.splits)

lemma out_bind_io:
  assumes "\<And>s. prefix (out s) (out (snd (m s)))"
    and "\<And>x s. prefix (out s) (out (snd (f x s)))"
  shows "prefix (out s) (out (snd (bind_io m f s)))"
proof (cases "m s")
  case (Pair r s')
  then have p: "prefix (out s) (out s')" using assms(1) [of s] by simp
  show ?thesis
  proof (cases r)
    case (Inl e)
    then show ?thesis using Pair p by (simp add: bind_io_def)
  next
    case (Inr x)
    then have "bind_io m f s = f x s'" using Pair by (simp add: bind_io_def)
    then show ?thesis using p assms(2) [of s' x] by (metis prefix_order.trans)
  qed
qed

lemma out_catch_io:
  assumes "\<And>s. prefix (out s) (out (snd (m s)))"
    and "\<And>e s. prefix (out s) (out (snd (h e s)))"
  shows "prefix (out s) (out (snd (catch_io m h s)))"
proof (cases "m s")
  case (Pair r s')
  then have p: "prefix (out s) (out s')" using assms(1) [of s] by simp
  show ?thesis
  proof (cases r)
    case (Inr x)
    then show ?thesis using Pair p by (simp add: catch_io_def)
  next
    case (Inl e)
    then have "catch_io m h s = h e s'" using Pair by (simp add: catch_io_def)
    then show ?thesis using p assms(2) [of s' e] by (metis prefix_order.trans)
  qed
qed

lemma out_simple_io:
  "prefix (out s) (out (snd (lift_io r s)))"
  "prefix (out s) (out (snd (return_io x s)))"
  "prefix (out s) (out (snd (print_io env l s)))"
  by (simp_all add: lift_io_def return_io_def print_io_def out_print_line split: option.splits)

subsection \<open>send\_mcp\_request: frame\<close>

lemma request_failed_self: "self (snd (request_failed env e resp s)) = self s"
  unfolding request_failed_def
  by (cases resp) (simp_all add: self_bind_io self_simple_io)

lemma request_failed_sent: "sent (snd (request_failed env e resp s)) = sent s"
  unfolding request_failed_def
  by (cases resp) (simp_all add: sent_bind_io sent_simple_io)

lemma request_failed_out: "prefix (out s) (out (snd (request_failed env e resp s)))"
  unfolding request_failed_def
  by (cases resp) (simp_all add: out_bind_io out_simple_io)

lemma read_response_self: "self (snd (read_response env r s)) = self s"
  unfolding read_response_def by (simp add: self_bind_io self_simple_io)

lemma read_response_sent: "sent (snd (read_response env r s)) = sent s"
  unfolding read_response_def by (simp add: sent_bind_io sent_simple_io)

lemma read_response_out: "prefix (out s) (out (snd (read_response env r s)))"
  unfolding read_response_def by (simp add: out_bind_io out_simple_io)

lemma exchange_self: "self (snd (exchange env url body s)) = self s"
  by (simp add: exchange_def Let_def request_failed_self self_catch_io read_response_self
      self_issue split: post_outcome.splits)

lemma exchange_sent:
  "sent (snd (exchange env url body s)) =
     sent s @ [POST url body [(''Content-Type'', ''application/json'')]]"
  by (simp add: exchange_def Let_def request_failed_sent sent_catch_io read_response_sent
      sent_issue split: post_outcome.splits)

lemma exchange_out: "prefix (out s) (out (snd (exchange env url body s)))"
proof -
  have "prefix (out (issue r s)) (out (snd (m (issue r s)))) \<Longrightarrow>
      prefix (out s) (out (snd (m (issue r s))))" for r and m :: "json io"
    by (simp add: out_issue)
  then show ?thesis
    by (simp add: exchange_def Let_def request_failed_out out_catch_io read_response_out
        split: post_outcome.splits)
qed

lemma send_mcp_request_self: "self (snd (send_mcp_request env M P I s)) = self s"
  unfolding send_mcp_request_def
  by (simp add: self_bind_io self_simple_io exchange_self split: option.splits)

lemma send_mcp_request_out: "prefix (out s) (out (snd (send_mcp_request env M P I s)))"
  unfolding send_mcp_request_def
  by (simp add: out_bind_io out_simple_io exchange_out split: option.splits)

lemma test_methods_self:
  "self (snd (test_initialize env s)) = self s"
  "self (snd (test_list_tools env s)) = self s"
  "self (snd (test_call_tool env n a s)) = self s"
  "self (snd (test_call_tool_with_agent_id env n g s)) = self s"
  unfolding test_initialize_def test_list_tools_def test_call_tool_def
    test_call_tool_with_agent_id_def
  by (simp_all add: self_bind_io self_simple_io send_mcp_request_self)

lemma test_methods_out:
  "prefix (out s) (out (snd (test_initialize env s)))"
  "prefix (out s) (out (snd (test_list_tools env s)))"
  "prefix (out s) (out (snd (test_call_tool env n a s)))"
  "prefix (out s) (out (snd (test_call_tool_with_agent_id env n g s)))"
  unfolding test_initialize_def test_list_tools_def test_call_tool_def
    test_call_tool_with_agent_id_def
  by (simp_all add: out_bind_io out_simple_io send_mcp_request_out)

text \<open>With the message URL set, the function sends its request once the first line is written.\<close>

lemma send_mcp_request_set:
  assumes "message_url (self s) = Some url" and "url \<noteq> []"
  shows "send_mcp_request env M P I s =
     bind_io (print_io env (Req_Sending url)) (\<lambda>u. \<lambda>s.
       exchange env url (mcp_request M P I) (print_line (Req_Body (mcp_request M P I)) s)) s"
  using assms by (simp add: send_mcp_request_def bind_io_def print_io_plain split: prod.splits sum.splits)

lemma send_mcp_request_sent:
  assumes "message_url (self s) = Some url" and "url \<noteq> []"
  shows "sent (snd (send_mcp_request env M P I s)) =
     (if print_error env (Req_Sending url) = None
      then sent s @ [POST url (mcp_request M P I) [(''Content-Type'', ''application/json'')]]
      else sent s)"
  unfolding send_mcp_request_set [OF assms]
  by (auto simp: bind_io_print_written bind_io_print_raises exchange_sent sent_print_line)

subsection \<open>connect\_sse: frame\<close>

lemma store_endpoint_sent: "sent (snd (store_endpoint env v s)) = sent s"
  by (simp add: store_endpoint_def Let_def sent_bind_io sent_simple_io
      split: json.splits sum.splits)

lemma first_event_sent: "sent (snd (first_event env ev s)) = sent s"
  unfolding first_event_def
  by (simp add: sent_bind_io sent_simple_io store_endpoint_sent)

lemma sse_try_sent: "sent (snd (sse_try env s)) = sent s @ [sse_request (self s)]"
proof -
  have "sent (snd (bind_io (print_io env l) (\<lambda>u. first_event env ev) w)) = sent w" for l ev w
    by (simp add: sent_bind_io sent_simple_io first_event_sent)
  then show ?thesis
    by (simp add: sse_try_def Let_def sent_issue split: get_outcome.splits list.splits sum.splits)
qed

lemma sse_handler_sent:
  "sent (snd (catch_io (sse_try env)
     (\<lambda>e. bind_io (print_io env (Sse_Error e)) (\<lambda>u. return_io False)) s)) =
   sent s @ [sse_request (self s)]"
proof (cases "sse_try env s")
  case (Pair r s')
  then have "sent s' = sent s @ [sse_request (self s)]" using sse_try_sent [of env s] by simp
  then show ?thesis using Pair
    by (cases r) (simp_all add: catch_io_def sent_bind_io sent_simple_io)
qed

lemma connect_sse_sent:
  "sent (snd (connect_sse env s)) =
     (if print_error env (Sse_Connecting (sse_url (self s))) = None
      then sent s @ [sse_request (self s)] else sent s)"
  by (auto simp: connect_sse_def bind_io_print_written bind_io_print_raises sse_handler_sent
      sent_print_line self_print_line)

lemma connect_sse_no_post:
  "filter is_POST (sent (snd (connect_sse env s))) = filter is_POST (sent s)"
  by (simp add: connect_sse_sent sse_request_def)

subsection \<open>send\_mcp\_request before the handshake\<close>

text \<open>
  Claim C3. Whatever the method, the parameters and the id, \<open>send_mcp_request\<close> on a
  client whose message URL is unset returns \<open>None\<close>, prints the one error line and
  issues no HTTP request. And \<open>main\<close> issues no POST unless the handshake has
  returned \<open>True\<close>: when it returns \<open>False\<close>, \<open>main\<close> returns before the first
  JSON-RPC call.
\<close>

theorem send_mcp_request_unset:
  "(message_url (self s) = None \<longrightarrow>
      fst (send_mcp_request env method params request_id s) = Inr JNull \<and>
      out (snd (send_mcp_request env method params request_id s)) = out s @ [Req_NoEndpoint] \<and>
      sent (snd (send_mcp_request env method params request_id s)) = sent s) \<and>
   (fst (connect_sse env start) \<noteq> Inr True \<longrightarrow>
      filter is_POST (sent (snd (main env))) = []) \<and>
   (fst (connect_sse env start) = Inr False \<longrightarrow> fst (main env) = Inr ())"
proof (intro conjI impI)
  assume "message_url (self s) = None"
  then have "send_mcp_request env method params request_id s =
      (Inr JNull, print_line Req_NoEndpoint s)"
    by (simp add: send_mcp_request_def bind_io_print_plain return_io_def)
  then show "fst (send_mcp_request env method params request_id s) = Inr JNull"
    and "out (snd (send_mcp_request env method params request_id s)) = out s @ [Req_NoEndpoint]"
    and "sent (snd (send_mcp_request env method params request_id s)) = sent s"
    by (simp_all add: out_print_line sent_print_line)
next
  obtain r s1 where c: "connect_sse env start = (r, s1)" by (cases "connect_sse env start")
  have p: "filter is_POST (sent s1) = []"
    using connect_sse_no_post [of env start] c by (simp add: start_def)
  {
    assume "fst (connect_sse env start) \<noteq> Inr True"
    then have "r \<noteq> Inr True" using c by simp
    then have "sent (snd (main env)) = sent s1"
      using c
      by (cases r) (auto simp: main_def bind_io_def print_io_plain sent_print_line)
    then show "filter is_POST (sent (snd (main env))) = []" using p by simp
  }
  {
    assume "fst (connect_sse env start) = Inr False"
    then show "fst (main env) = Inr ()"
      using c by (simp add: main_def bind_io_def print_io_plain)
  }
qed

theorem send_mcp_request_unset_witness:
  "message_url (self start) = None \<and>
   fst (send_mcp_request (mock_server join_path JNull 503 [] []) ''tools/list'' None 1 start)
     = Inr JNull \<and>
   sent (snd (send_mcp_request (mock_server join_path JNull 503 [] []) ''tools/list'' None 1 start))
     = [] \<and>
   fst (connect_sse (mock_server join_path JNull 503 [] []) start) = Inr False \<and>
   fst (main (mock_server join_path JNull 503 [] [])) = Inr () \<and>
   filter is_POST (sent (snd (main (mock_server join_path JNull 503 [] [])))) = []"
proof -
  have a: "message_url (self start) = None" by (simp add: start_def MCPSSEClient_def)
  have b: "fst (connect_sse (mock_server join_path JNull 503 [] []) start) = Inr False"
    by code_simp
  have c: "sent start = []" by (simp add: start_def)
  show ?thesis
    using a b c
      send_mcp_request_unset [of start "mock_server join_path JNull 503 [] []" "''tools/list''" None 1]
    by simp
qed

subsection \<open>The request and the empty-body answer\<close>

text \<open>
  Claim C4. Let the message URL be set. \<open>send_mcp_request\<close> with method \<open>M\<close>,
  parameters \<open>P\<close> and id \<open>I\<close> sends at most one request, and what it sends is a POST
  to the message URL whose body is the object with the four fields jsonrpc = "2.0",
  id = I, method = M and params = P, the empty object standing for absent parameters;
  it sends it whenever the line announcing the request is written (the line
  interpolates the URL, and nothing is sent when that print raises). When the request
  was sent and the answer has a 2xx status and an empty body, the function returns
  the object with the two fields status = "success" and status\_code = the status of
  the answer.
\<close>

theorem send_mcp_request_body:
  assumes "message_url (self s) = Some url" and "url \<noteq> []"
  shows "(print_error env (Req_Sending url) = None \<longrightarrow>
            sent (snd (send_mcp_request env M P I s)) =
              sent s @ [POST url
                (JObj [(''jsonrpc'', JStr ''2.0''), (''id'', JInt I), (''method'', JStr M),
                       (''params'', JObj (case P of None \<Rightarrow> [] | Some p \<Rightarrow> p))])
                [(''Content-Type'', ''application/json'')]]) \<and>
         (sent (snd (send_mcp_request env M P I s)) = sent s \<or>
          sent (snd (send_mcp_request env M P I s)) =
              sent s @ [POST url
                (JObj [(''jsonrpc'', JStr ''2.0''), (''id'', JInt I), (''method'', JStr M),
                       (''params'', JObj (case P of None \<Rightarrow> [] | Some p \<Rightarrow> p))])
                [(''Content-Type'', ''application/json'')]]) \<and>
         (\<forall>r. sent (snd (send_mcp_request env M P I s)) \<noteq> sent s
                \<and> http_post env (sent (snd (send_mcp_request env M P I s))) = Post_Response r
                \<and> 200 \<le> status_code r \<and> status_code r < 300 \<and> content r = []
              \<longrightarrow> fst (send_mcp_request env M P I s) =
                    Inr (JObj [(''status'', JStr ''success''),
                               (''status_code'', JInt (status_code r))]))"
proof (intro conjI allI impI)
  show "sent (snd (send_mcp_request env M P I s)) =
      sent s @ [POST url
        (JObj [(''jsonrpc'', JStr ''2.0''), (''id'', JInt I), (''method'', JStr M),
               (''params'', JObj (case P of None \<Rightarrow> [] | Some p \<Rightarrow> p))])
        [(''Content-Type'', ''application/json'')]]"
    if "print_error env (Req_Sending url) = None"
    using that by (simp add: send_mcp_request_sent [OF assms] mcp_request_def or_empty_eq)
  show "sent (snd (send_mcp_request env M P I s)) = sent s \<or>
      sent (snd (send_mcp_request env M P I s)) =
      sent s @ [POST url
        (JObj [(''jsonrpc'', JStr ''2.0''), (''id'', JInt I), (''method'', JStr M),
               (''params'', JObj (case P of None \<Rightarrow> [] | Some p \<Rightarrow> p))])
        [(''Content-Type'', ''application/json'')]]"
    by (simp add: send_mcp_request_sent [OF assms] mcp_request_def or_empty_eq)
next
  fix r
  assume h: "sent (snd (send_mcp_request env M P I s)) \<noteq> sent s
      \<and> http_post env (sent (snd (send_mcp_request env M P I s))) = Post_Response r
      \<and> 200 \<le> status_code r \<and> status_code r < 300 \<and> content r = []"
  then have w: "print_error env (Req_Sending url) = None"
    by (auto simp: send_mcp_request_sent [OF assms] split: if_splits)
  define w2 where "w2 = print_line (Req_Body (mcp_request M P I)) (print_line (Req_Sending url) s)"
  have e: "send_mcp_request env M P I s = exchange env url (mcp_request M P I) w2"
    unfolding send_mcp_request_set [OF assms] w2_def by (simp add: bind_io_print_written [OF w])
  have "sent (issue (POST url (mcp_request M P I) [(''Content-Type'', ''application/json'')]) w2) =
      sent (snd (send_mcp_request env M P I s))"
    unfolding e by (simp add: exchange_sent sent_issue)
  then have p: "http_post env (sent (issue (POST url (mcp_request M P I)
      [(''Content-Type'', ''application/json'')]) w2)) = Post_Response r"
    using h by simp
  have n: "\<not> raise_for_status (status_code r)" using h by (simp add: raise_for_status_def)
  show "fst (send_mcp_request env M P I s) =
      Inr (JObj [(''status'', JStr ''success''), (''status_code'', JInt (status_code r))])"
    unfolding e using h n
    by (simp add: exchange_def Let_def p catch_io_def read_response_def bind_io_print_plain
        return_io_def)
qed

theorem send_mcp_request_body_witness:
  "message_url (self ready) = Some ''http://localhost:3000/msg?session_id=abc123'' \<and>
   sent (snd (send_mcp_request (mock_server join_path JNull 200 [] [empty_reply 204])
                ''tools/call'' (Some [(''name'', JStr ''t'')]) 7 ready)) =
     [POST ''http://localhost:3000/msg?session_id=abc123''
        (JObj [(''jsonrpc'', JStr ''2.0''), (''id'', JInt 7), (''method'', JStr ''tools/call''),
               (''params'', JObj [(''name'', JStr ''t'')])])
        [(''Content-Type'', ''application/json'')]] \<and>
   fst (send_mcp_request (mock_server join_path JNull 200 [] [empty_reply 204])
          ''tools/call'' (Some [(''name'', JStr ''t'')]) 7 ready) =
     Inr (JObj [(''status'', JStr ''success''), (''status_code'', JInt 204)])"
proof -
  let ?env = "mock_server join_path JNull 200 [] [empty_reply 204]"
  let ?r = "\<lparr>status_code = 204, content = [], text_of = [], json_result = Inl JSONDecodeError\<rparr>"
  have a: "message_url (self ready) = Some ''http://localhost:3000/msg?session_id=abc123''"
    by (simp add: ready_def)
  have b: "''http://localhost:3000/msg?session_id=abc123'' \<noteq> []" by simp
  have c: "sent ready = []" by (simp add: ready_def)
  have w: "print_error ?env (Req_Sending ''http://localhost:3000/msg?session_id=abc123'') = None"
    by (simp add: print_error_def mock_server_def)
  note t = send_mcp_request_body [OF a b, of ?env "''tools/call''" "Some [(''name'', JStr ''t'')]" 7]
  have s: "sent (snd (send_mcp_request ?env ''tools/call'' (Some [(''name'', JStr ''t'')]) 7 ready)) =
     [POST ''http://localhost:3000/msg?session_id=abc123''
        (JObj [(''jsonrpc'', JStr ''2.0''), (''id'', JInt 7), (''method'', JStr ''tools/call''),
               (''params'', JObj [(''name'', JStr ''t'')])])
        [(''Content-Type'', ''application/json'')]]"
    using t w c by simp
  have p: "http_post ?env (sent (snd (send_mcp_request ?env ''tools/call''
              (Some [(''name'', JStr ''t'')]) 7 ready))) = Post_Response ?r"
    unfolding s by (simp add: mock_server_def empty_reply_def)
  have "sent (snd (send_mcp_request ?env ''tools/call'' (Some [(''name'', JStr ''t'')]) 7 ready))
      \<noteq> sent ready"
    unfolding s c by simp
  then have "fst (send_mcp_request ?env ''tools/call'' (Some [(''name'', JStr ''t'')]) 7 ready) =
     Inr (JObj [(''status'', JStr ''success''), (''status_code'', JInt (status_code ?r))])"
    using t p by simp
  then show ?thesis using a s by simp
qed

subsection \<open>The handshake\<close>

lemma split_from_not_Nil: "split_from sep acc s \<noteq> []"
  by (induction sep acc s rule: split_from.induct) auto

lemma split_from_two:
  "sep \<noteq> [] \<Longrightarrow> str_in sep s \<Longrightarrow> 2 \<le> length (split_from sep acc s)"
proof (induction s arbitrary: acc)
  case Nil
  then show ?case by simp
next
  case (Cons c cs)
  show ?case
  proof (cases "prefix sep (c # cs)")
    case True
    have "1 \<le> length (split_from sep [] (drop (length sep) (c # cs)))"
      using split_from_not_Nil [of sep "[]" "drop (length sep) (c # cs)"]
      by (cases "split_from sep [] (drop (length sep) (c # cs))") auto
    then show ?thesis using True Cons.prems(1) by simp
  next
    case False
    then have "str_in sep cs" using Cons.prems(2) by simp
    then show ?thesis using False Cons.IH [OF Cons.prems(1), of "acc @ [c]"] by simp
  qed
qed

lemma str_in_not_Nil: "sub \<noteq> [] \<Longrightarrow> str_in sub s \<Longrightarrow> s \<noteq> []"
  by (cases s) auto

text \<open>
  Once \<open>'session_id=' in relative_uri\<close> holds for a string, the split has a second
  piece, so only \<open>urljoin\<close> and the two prints can still fail; the identifier is
  assigned before \<open>urljoin\<close>, and the message URL before the prints.
\<close>

lemma store_endpoint_JStr:
  assumes "str_in ''session_id='' u"
  shows "store_endpoint env (JStr u) s =
     (case urljoin env (base_url (self s)) u of
        Inl e \<Rightarrow>
          (Inl e, s\<lparr>self := (self s)\<lparr>session_id := Some (split_from ''session_id='' [] u ! 1)\<rparr>\<rparr>)
      | Inr url \<Rightarrow>
          bind_io (print_io env (Sse_SessionId (split_from ''session_id='' [] u ! 1))) (\<lambda>x.
          bind_io (print_io env (Sse_MessageUrl url)) (\<lambda>x. return_io True))
            (s\<lparr>self := (self s)\<lparr>session_id := Some (split_from ''session_id='' [] u ! 1),
                                  message_url := Some url\<rparr>\<rparr>))"
proof -
  have "2 \<le> length (split_from ''session_id='' [] u)"
    using assms by (intro split_from_two) simp_all
  then have "py_index (split_from ''session_id='' [] u) 1 = Inr (split_from ''session_id='' [] u ! 1)"
    by (simp add: py_index_def)
  then show ?thesis
    by (simp add: store_endpoint_def str_split_def Let_def split: sum.splits)
qed

lemma store_endpoint_not_JStr:
  "\<forall>u. v \<noteq> JStr u \<Longrightarrow> store_endpoint env v s = (Inl AttributeError, s)"
  by (cases v) (simp_all add: store_endpoint_def)

lemma two_prints_True_iff:
  "fst (bind_io (print_io env a) (\<lambda>x. bind_io (print_io env b) (\<lambda>x. return_io True)) s) = Inr True
     \<longleftrightarrow> print_error env a = None \<and> print_error env b = None"
  by (simp add: bind_io_def print_io_def return_io_def split: option.splits)

lemma two_prints_self:
  "self (snd (bind_io (print_io env a) (\<lambda>x. bind_io (print_io env b) (\<lambda>x. return_io True)) s))
     = self s"
  by (simp add: self_bind_io self_simple_io)

lemma store_endpoint_True_iff:
  assumes "str_in ''session_id='' u"
  shows "fst (store_endpoint env (JStr u) s) = Inr True \<longleftrightarrow>
     (\<exists>url. urljoin env (base_url (self s)) u = Inr url \<and>
        print_error env (Sse_SessionId (split_from ''session_id='' [] u ! 1)) = None \<and>
        print_error env (Sse_MessageUrl url) = None)"
  unfolding store_endpoint_JStr [OF assms]
  by (cases "urljoin env (base_url (self s)) u") (simp_all add: two_prints_True_iff)

lemma store_endpoint_self:
  assumes "str_in ''session_id='' u"
  shows "self (snd (store_endpoint env (JStr u) s)) =
     (case urljoin env (base_url (self s)) u of
        Inl e \<Rightarrow> (self s)\<lparr>session_id := Some (split_from ''session_id='' [] u ! 1)\<rparr>
      | Inr url \<Rightarrow> (self s)\<lparr>session_id := Some (split_from ''session_id='' [] u ! 1),
                              message_url := Some url\<rparr>)"
  unfolding store_endpoint_JStr [OF assms]
  by (cases "urljoin env (base_url (self s)) u") (simp_all add: two_prints_self)

text \<open>
  An event offers a uri when it is of type \<open>endpoint\<close> and its data parses to an
  object whose \<open>uri\<close> is a string containing \<open>session_id=\<close>. Any other event leaves
  the state as it is and does not yield \<open>True\<close>.
\<close>

lemma first_event_offer:
  assumes "event ev = ''endpoint''" and "json_loads env (data ev) = Inr (JObj kvs)"
    and "map_of kvs ''uri'' = Some (JStr u)" and "str_in ''session_id='' u"
  shows "first_event env ev s = store_endpoint env (JStr u) s"
proof -
  have "u \<noteq> []" using assms(4) str_in_not_Nil [of "''session_id=''" u] by simp
  then show ?thesis
    using assms by (simp add: first_event_def bind_io_lift_Inr)
qed

lemma first_event_no_offer:
  assumes "\<not> (event ev = ''endpoint'' \<and>
             (\<exists>kvs u. json_loads env (data ev) = Inr (JObj kvs) \<and>
                map_of kvs ''uri'' = Some (JStr u) \<and> str_in ''session_id='' u))"
  shows "snd (first_event env ev s) = s" and "fst (first_event env ev s) \<noteq> Inr True"
proof -
  have "snd (first_event env ev s) = s \<and> fst (first_event env ev s) \<noteq> Inr True"
  proof (cases "event ev = ''endpoint''")
    case False
    then show ?thesis by (simp add: first_event_def return_io_def)
  next
    case ep: True
    show ?thesis
    proof (cases "json_loads env (data ev)")
      case (Inl e)
      then show ?thesis using ep by (simp add: first_event_def bind_io_lift_Inl)
    next
      case (Inr endpoint_data)
      show ?thesis
      proof (cases endpoint_data)
        case (JObj kvs)
        show ?thesis
        proof (cases "map_of kvs ''uri''")
          case None
          then show ?thesis using ep Inr JObj
            by (simp add: first_event_def bind_io_lift_Inr return_io_def)
        next
          case (Some v)
          show ?thesis
          proof (cases "\<exists>u. v = JStr u")
            case True
            then obtain u where "v = JStr u" by blast
            moreover from this have "\<not> str_in ''session_id='' u"
              using assms ep Inr JObj Some by simp
            ultimately show ?thesis using ep Inr JObj Some
              by (simp add: first_event_def bind_io_lift_Inr return_io_def)
          next
            case False
            then have "store_endpoint env v s = (Inl AttributeError, s)"
              by (intro store_endpoint_not_JStr) blast
            then show ?thesis using ep Inr JObj Some
              by (cases "py_in ''session_id='' v")
                (simp_all add: first_event_def bind_io_lift_Inr bind_io_lift_Inl return_io_def)
          qed
        qed
      qed (use ep Inr in \<open>simp_all add: first_event_def bind_io_lift_Inr bind_io_lift_Inl\<close>)
    qed
  qed
  then show "snd (first_event env ev s) = s" and "fst (first_event env ev s) \<noteq> Inr True"
    by simp_all
qed

text \<open>The \<open>try\<close> block by the answer to the GET.\<close>

lemma sse_try_cases:
  obtains
    (silent) "fst (sse_try env s) \<noteq> Inr True"
      and "snd (sse_try env s) = issue (sse_request (self s)) s"
      and "\<not> (\<exists>status ev rest. http_get env (sent s @ [sse_request (self s)]) =
                Get_Response status (Inr ev # rest) \<and> \<not> raise_for_status status)"
  | (event) status ev rest where
      "http_get env (sent s @ [sse_request (self s)]) = Get_Response status (Inr ev # rest)"
      and "\<not> raise_for_status status"
      and "sse_try env s =
             bind_io (print_io env (Sse_Event (event ev) (data ev))) (\<lambda>u. first_event env ev)
               (issue (sse_request (self s)) s)"
proof (cases "http_get env (sent s @ [sse_request (self s)])")
  case (Get_Raises e)
  then show ?thesis using silent by (simp add: sse_try_def Let_def sent_issue)
next
  case (Get_Response status events)
  show ?thesis
  proof (cases "raise_for_status status")
    case True
    then show ?thesis using Get_Response silent by (simp add: sse_try_def Let_def sent_issue)
  next
    case False
    show ?thesis
    proof (cases events)
      case Nil
      then show ?thesis using Get_Response False silent
        by (simp add: sse_try_def Let_def sent_issue)
    next
      case (Cons x rest)
      show ?thesis
      proof (cases x)
        case (Inl e)
        then show ?thesis using Get_Response False Cons silent
          by (simp add: sse_try_def Let_def sent_issue)
      next
        case (Inr ev)
        then show ?thesis using Get_Response False Cons event [of status ev rest]
          by (simp add: sse_try_def Let_def sent_issue)
      qed
    qed
  qed
qed

text \<open>The handler turns an exception into \<open>False\<close>, unless its own print raises.\<close>

lemma sse_handler_True_iff:
  "fst (catch_io m (\<lambda>e. bind_io (print_io env (Sse_Error e)) (\<lambda>u. return_io False)) s) = Inr True
     \<longleftrightarrow> fst (m s) = Inr True"
proof (cases "m s")
  case (Pair r s')
  then show ?thesis
    by (cases r)
      (simp_all add: catch_io_def bind_io_def print_io_def return_io_def split: option.splits)
qed

lemma sse_handler_self:
  "self (snd (catch_io m (\<lambda>e. bind_io (print_io env (Sse_Error e)) (\<lambda>u. return_io False)) s))
     = self (snd (m s))"
proof (cases "m s")
  case (Pair r s')
  then show ?thesis
    by (cases r)
      (simp_all add: catch_io_def bind_io_def print_io_def return_io_def self_print_line
        split: option.splits)
qed

lemma sse_handler_returns:
  assumes "\<forall>e. print_error env (Sse_Error e) = None"
  shows "\<exists>b. fst (catch_io m (\<lambda>e. bind_io (print_io env (Sse_Error e)) (\<lambda>u. return_io False)) s)
       = Inr b"
proof (cases "m s")
  case (Pair r s')
  then show ?thesis using assms
    by (cases r) (auto simp: catch_io_def bind_io_def print_io_def return_io_def)
qed

lemma connect_sse_raises:
  "print_error env (Sse_Connecting (sse_url (self s))) = Some e \<Longrightarrow>
     connect_sse env s = (Inl e, s)"
  by (simp add: connect_sse_def bind_io_print_raises)

lemma connect_sse_tries:
  "print_error env (Sse_Connecting (sse_url (self s))) = None \<Longrightarrow>
     connect_sse env s =
       catch_io (sse_try env) (\<lambda>e. bind_io (print_io env (Sse_Error e)) (\<lambda>u. return_io False))
         (print_line (Sse_Connecting (sse_url (self s))) s)"
  by (simp add: connect_sse_def bind_io_print_written)

text \<open>
  \<open>connect_sse\<close> by cases: the first print raises; the stream starts with no event
  that offers a uri; the line of the first event cannot be written; or the first
  event offers a uri, and then \<open>urljoin\<close> and the last two prints decide.
\<close>

lemma connect_sse_cases:
  obtains
    (mute) e where "print_error env (Sse_Connecting (sse_url (self s))) = Some e"
      and "connect_sse env s = (Inl e, s)"
  | (no_offer) "print_error env (Sse_Connecting (sse_url (self s))) = None"
      and "\<not> (\<exists>status ev rest kvs u.
             http_get env (sent s @ [sse_request (self s)]) = Get_Response status (Inr ev # rest) \<and>
             \<not> raise_for_status status \<and> event ev = ''endpoint'' \<and>
             json_loads env (data ev) = Inr (JObj kvs) \<and> map_of kvs ''uri'' = Some (JStr u) \<and>
             str_in ''session_id='' u)"
      and "fst (connect_sse env s) \<noteq> Inr True"
      and "self (snd (connect_sse env s)) = self s"
  | (unwritten) status ev rest x where
      "http_get env (sent s @ [sse_request (self s)]) = Get_Response status (Inr ev # rest)"
      and "print_error env (Sse_Event (event ev) (data ev)) = Some x"
      and "fst (connect_sse env s) \<noteq> Inr True"
      and "self (snd (connect_sse env s)) = self s"
  | (offer) status ev rest kvs u where
      "http_get env (sent s @ [sse_request (self s)]) = Get_Response status (Inr ev # rest)"
      and "\<not> raise_for_status status" and "event ev = ''endpoint''"
      and "json_loads env (data ev) = Inr (JObj kvs)" and "map_of kvs ''uri'' = Some (JStr u)"
      and "str_in ''session_id='' u"
      and "print_error env (Sse_Connecting (sse_url (self s))) = None"
      and "print_error env (Sse_Event (event ev) (data ev)) = None"
      and "fst (connect_sse env s) = Inr True \<longleftrightarrow>
             (\<exists>url. urljoin env (base_url (self s)) u = Inr url \<and>
                print_error env (Sse_SessionId (split_from ''session_id='' [] u ! 1)) = None \<and>
                print_error env (Sse_MessageUrl url) = None)"
      and "self (snd (connect_sse env s)) =
             (case urljoin env (base_url (self s)) u of
                Inl e \<Rightarrow> (self s)\<lparr>session_id := Some (split_from ''session_id='' [] u ! 1)\<rparr>
              | Inr url \<Rightarrow> (self s)\<lparr>session_id := Some (split_from ''session_id='' [] u ! 1),
                                      message_url := Some url\<rparr>)"
proof (cases "print_error env (Sse_Connecting (sse_url (self s)))")
  case (Some e)
  then show ?thesis using mute connect_sse_raises by blast
next
  case None
  define s0 where "s0 = print_line (Sse_Connecting (sse_url (self s))) s"
  have s0: "self s0 = self s" "sent s0 = sent s"
    by (simp_all add: s0_def self_print_line sent_print_line)
  have c: "connect_sse env s =
      catch_io (sse_try env) (\<lambda>e. bind_io (print_io env (Sse_Error e)) (\<lambda>u. return_io False)) s0"
    unfolding s0_def by (rule connect_sse_tries [OF None])
  have t: "fst (connect_sse env s) = Inr True \<longleftrightarrow> fst (sse_try env s0) = Inr True"
    unfolding c by (rule sse_handler_True_iff)
  have f: "self (snd (connect_sse env s)) = self (snd (sse_try env s0))"
    unfolding c by (rule sse_handler_self)
  show ?thesis
  proof (cases rule: sse_try_cases [of env s0])
    case silent
    have "fst (connect_sse env s) \<noteq> Inr True" using t silent(1) by simp
    moreover have "self (snd (connect_sse env s)) = self s"
      using f silent(2) s0 by (simp add: self_issue)
    moreover have "\<not> (\<exists>status ev rest kvs u.
             http_get env (sent s @ [sse_request (self s)]) = Get_Response status (Inr ev # rest) \<and>
             \<not> raise_for_status status \<and> event ev = ''endpoint'' \<and>
             json_loads env (data ev) = Inr (JObj kvs) \<and> map_of kvs ''uri'' = Some (JStr u) \<and>
             str_in ''session_id='' u)"
      using silent(3) unfolding s0 by blast
    ultimately show ?thesis using no_offer None by blast
  next
    case (event status ev rest)
    define s1 where "s1 = issue (sse_request (self s0)) s0"
    have s1: "self s1 = self s" by (simp add: s1_def self_issue s0)
    have g: "http_get env (sent s @ [sse_request (self s)]) = Get_Response status (Inr ev # rest)"
      using event(1) unfolding s0 .
    show ?thesis
    proof (cases "print_error env (Sse_Event (event ev) (data ev))")
      case (Some x)
      then have "sse_try env s0 = (Inl x, s1)"
        unfolding event(3) s1_def by (simp add: bind_io_print_raises)
      then have "fst (connect_sse env s) \<noteq> Inr True" and "self (snd (connect_sse env s)) = self s"
        using t f s1 by simp_all
      then show ?thesis using unwritten g Some by blast
    next
      case written: None
      define s2 where "s2 = print_line (Sse_Event (event ev) (data ev)) s1"
      have s2: "self s2 = self s" by (simp add: s2_def self_print_line s1)
      have e: "sse_try env s0 = first_event env ev s2"
        unfolding event(3) s1_def s2_def by (simp add: bind_io_print_written [OF written])
      show ?thesis
      proof (cases "event ev = ''endpoint'' \<and>
             (\<exists>kvs u. json_loads env (data ev) = Inr (JObj kvs) \<and>
                map_of kvs ''uri'' = Some (JStr u) \<and> str_in ''session_id='' u)")
        case False
        have "fst (connect_sse env s) \<noteq> Inr True"
          using t e first_event_no_offer(2) [OF False, of s2] by simp
        moreover have "self (snd (connect_sse env s)) = self s"
          using f e first_event_no_offer(1) [OF False, of s2] s2 by simp
        moreover have "\<not> (\<exists>status ev rest kvs u.
             http_get env (sent s @ [sse_request (self s)]) = Get_Response status (Inr ev # rest) \<and>
             \<not> raise_for_status status \<and> event ev = ''endpoint'' \<and>
             json_loads env (data ev) = Inr (JObj kvs) \<and> map_of kvs ''uri'' = Some (JStr u) \<and>
             str_in ''session_id='' u)"
          using False g by auto
        ultimately show ?thesis using no_offer None by blast
      next
        case True
        then obtain kvs u where o: "event ev = ''endpoint''"
            "json_loads env (data ev) = Inr (JObj kvs)" "map_of kvs ''uri'' = Some (JStr u)"
            "str_in ''session_id='' u"
          by blast
        have e': "sse_try env s0 = store_endpoint env (JStr u) s2"
          unfolding e by (rule first_event_offer [OF o])
        have "fst (connect_sse env s) = Inr True \<longleftrightarrow>
             (\<exists>url. urljoin env (base_url (self s)) u = Inr url \<and>
                print_error env (Sse_SessionId (split_from ''session_id='' [] u ! 1)) = None \<and>
                print_error env (Sse_MessageUrl url) = None)"
          unfolding t e' store_endpoint_True_iff [OF o(4)] s2 ..
        moreover have "self (snd (connect_sse env s)) =
             (case urljoin env (base_url (self s)) u of
                Inl e \<Rightarrow> (self s)\<lparr>session_id := Some (split_from ''session_id='' [] u ! 1)\<rparr>
              | Inr url \<Rightarrow> (self s)\<lparr>session_id := Some (split_from ''session_id='' [] u ! 1),
                                      message_url := Some url\<rparr>)"
          unfolding f e' store_endpoint_self [OF o(4)] s2 ..
        ultimately show ?thesis
          using offer [OF g event(2) o None written] by blast
      qed
    qed
  qed
qed

lemma connect_sse_returns:
  assumes "print_error env (Sse_Connecting (sse_url (self s))) = None"
    and "\<forall>e. print_error env (Sse_Error e) = None"
  shows "\<exists>b. fst (connect_sse env s) = Inr b"
  unfolding connect_sse_tries [OF assms(1)] by (rule sse_handler_returns [OF assms(2)])

text \<open>
  Claim C2, as the code has it. Let the stream of a response that is no 4xx or 5xx
  start with an event of type \<open>endpoint\<close> whose data parses to an object with the
  string \<open>uri = pre @ 'session_id=' @ rest\<close>, where \<open>session_id=\<close> occurs neither in
  \<open>pre\<close> nor in \<open>rest\<close>, let \<open>urljoin(base_url, uri)\<close> return \<open>url\<close>, and let the
  lines printed before the assignments be written. Then the session identifier stored
  is \<open>rest\<close>, that is everything after \<open>session_id=\<close> with any further query
  parameters, and the message URL stored is \<open>url\<close>; and the handshake returns \<open>True\<close>
  exactly when the two lines that print them are written.
\<close>

theorem connect_sse_endpoint:
  assumes "http_get env (sent s @ [sse_request (self s)]) = Get_Response status (Inr ev # later)"
    and "\<not> raise_for_status status"
    and "event ev = ''endpoint''"
    and "json_loads env (data ev) = Inr (JObj kvs)"
    and "map_of kvs ''uri'' = Some (JStr (pre @ ''session_id='' @ rest))"
    and "\<not> str_in ''session_id='' pre" and "\<not> str_in ''session_id='' rest"
    and "urljoin env (base_url (self s)) (pre @ ''session_id='' @ rest) = Inr url"
    and "print_error env (Sse_Connecting (sse_url (self s))) = None"
    and "print_error env (Sse_Event (event ev) (data ev)) = None"
  shows "session_id (self (snd (connect_sse env s))) = Some rest \<and>
         message_url (self (snd (connect_sse env s))) = Some url \<and>
         (fst (connect_sse env s) = Inr True \<longleftrightarrow>
            print_error env (Sse_SessionId rest) = None \<and>
            print_error env (Sse_MessageUrl url) = None)"
proof -
  have i: "str_in ''session_id='' (pre @ ''session_id='' @ rest)"
    unfolding str_in_iff by blast
  have "split_from ''session_id='' [] (pre @ ''session_id='' @ rest) = [pre, rest]"
    using split_session_id [OF assms(6,7)] by (simp add: str_split_def)
  then have p: "split_from ''session_id='' [] (pre @ ''session_id='' @ rest) ! 1 = rest"
    by simp
  show ?thesis
  proof (cases rule: connect_sse_cases [of env s])
    case (mute e)
    then show ?thesis using assms(9) by simp
  next
    case no_offer
    then show ?thesis using assms(1-5) i by blast
  next
    case (unwritten status' ev' rest' x)
    then show ?thesis using assms(1,10) by simp
  next
    case (offer status' ev' rest' kvs' u')
    then have "ev' = ev" using assms(1) by simp
    then have "u' = pre @ ''session_id='' @ rest" using offer(4,5) assms(4,5) by simp
    then show ?thesis using offer(9,10) assms(8) p by simp
  qed
qed

theorem connect_sse_endpoint_witness:
  "fst (connect_sse (mock_server join_path (JObj [(''uri'', JStr ''/msg?session_id=abc123'')])
          200 [Inr endpoint_event] []) start) = Inr True \<and>
   session_id (self (snd (connect_sse
      (mock_server join_path (JObj [(''uri'', JStr ''/msg?session_id=abc123'')])
          200 [Inr endpoint_event] []) start))) = Some ''abc123'' \<and>
   message_url (self (snd (connect_sse
      (mock_server join_path (JObj [(''uri'', JStr ''/msg?session_id=abc123'')])
          200 [Inr endpoint_event] []) start))) = Some ''http://localhost:3000/msg?session_id=abc123''"
proof -
  let ?env = "mock_server join_path (JObj [(''uri'', JStr ''/msg?session_id=abc123'')])
          200 [Inr endpoint_event] []"
  have 1: "http_get ?env (sent start @ [sse_request (self start)]) =
      Get_Response 200 (Inr endpoint_event # [])"
    by (simp add: mock_server_def)
  have 2: "\<not> raise_for_status 200" by (simp add: raise_for_status_def)
  have 3: "event endpoint_event = ''endpoint''" by (simp add: endpoint_event_def)
  have 4: "json_loads ?env (data endpoint_event) =
      Inr (JObj [(''uri'', JStr ''/msg?session_id=abc123'')])"
    by (simp add: mock_server_def)
  have 5: "map_of [(''uri'', JStr ''/msg?session_id=abc123'')] ''uri'' =
      Some (JStr (''/msg?'' @ ''session_id='' @ ''abc123''))"
    by simp
  have 6: "\<not> str_in ''session_id='' ''/msg?''" by simp
  have 7: "\<not> str_in ''session_id='' ''abc123''" by simp
  have 8: "urljoin ?env (base_url (self start)) (''/msg?'' @ ''session_id='' @ ''abc123'') =
      Inr ''http://localhost:3000/msg?session_id=abc123''"
    by (simp add: mock_server_def join_path_def start_def MCPSSEClient_def BASE_URL_def)
  have w: "print_error ?env l = None" for l
    by (simp add: print_error_def mock_server_def)
  show ?thesis
    using connect_sse_endpoint [OF 1 2 3 4 5 6 7 8 w w] w by simp
qed

text \<open>
  The claim as worded fails where query parameters follow the identifier: from the
  uri \<open>/msg?session_id=abc&x=1\<close> the handshake stores \<open>abc&x=1\<close>, not \<open>abc\<close>.
\<close>

theorem connect_sse_trailing_parameters:
  "fst (connect_sse (mock_server join_path (JObj [(''uri'', JStr ''/msg?session_id=abc&x=1'')])
          200 [Inr endpoint_event] []) start) = Inr True \<and>
   session_id (self (snd (connect_sse
      (mock_server join_path (JObj [(''uri'', JStr ''/msg?session_id=abc&x=1'')])
          200 [Inr endpoint_event] []) start))) = Some ''abc&x=1'' \<and>
   session_id (self (snd (connect_sse
      (mock_server join_path (JObj [(''uri'', JStr ''/msg?session_id=abc&x=1'')])
          200 [Inr endpoint_event] []) start))) \<noteq> Some ''abc''"
  by code_simp

text \<open>
  Claim C6, as the code has it. \<open>connect_sse\<close> looks at the first item of the stream
  only (\<open>rest\<close> below is arbitrary). It returns \<open>True\<close> exactly when the status is no
  4xx or 5xx, the first item is an event of type \<open>endpoint\<close>, its data parses to an
  object whose \<open>uri\<close> is a string containing \<open>session_id=\<close>, \<open>urljoin\<close> returns, and
  the four lines on that path are written; both fields are set then. When the GET
  raises, the status is 4xx or 5xx, the stream is empty or raises at once, the first
  event is of another type, or its data gives no string \<open>uri\<close> containing
  \<open>session_id=\<close>, it does not return \<open>True\<close> and the whole client is as before. It
  raises only what a print raises: when the first line and the line of the handler
  are written, it returns \<open>True\<close> or \<open>False\<close>.
\<close>

theorem connect_sse_outcome:
  "(fst (connect_sse env s) = Inr True \<longleftrightarrow>
      (\<exists>status ev rest kvs u url.
         http_get env (sent s @ [sse_request (self s)]) = Get_Response status (Inr ev # rest) \<and>
         \<not> raise_for_status status \<and> event ev = ''endpoint'' \<and>
         json_loads env (data ev) = Inr (JObj kvs) \<and> map_of kvs ''uri'' = Some (JStr u) \<and>
         str_in ''session_id='' u \<and> urljoin env (base_url (self s)) u = Inr url \<and>
         print_error env (Sse_Connecting (sse_url (self s))) = None \<and>
         print_error env (Sse_Event (event ev) (data ev)) = None \<and>
         print_error env (Sse_SessionId (split_from ''session_id='' [] u ! 1)) = None \<and>
         print_error env (Sse_MessageUrl url) = None)) \<and>
   (fst (connect_sse env s) = Inr True \<longrightarrow>
      session_id (self (snd (connect_sse env s))) \<noteq> None \<and>
      message_url (self (snd (connect_sse env s))) \<noteq> None) \<and>
   (\<not> (\<exists>status ev rest kvs u.
         http_get env (sent s @ [sse_request (self s)]) = Get_Response status (Inr ev # rest) \<and>
         \<not> raise_for_status status \<and> event ev = ''endpoint'' \<and>
         json_loads env (data ev) = Inr (JObj kvs) \<and> map_of kvs ''uri'' = Some (JStr u) \<and>
         str_in ''session_id='' u) \<longrightarrow>
      fst (connect_sse env s) \<noteq> Inr True \<and> self (snd (connect_sse env s)) = self s) \<and>
   (print_error env (Sse_Connecting (sse_url (self s))) = None \<and>
    (\<forall>e. print_error env (Sse_Error e) = None) \<longrightarrow>
      fst (connect_sse env s) = Inr True \<or> fst (connect_sse env s) = Inr False)"
proof (intro conjI)
  show "fst (connect_sse env s) = Inr True \<longleftrightarrow>
      (\<exists>status ev rest kvs u url.
         http_get env (sent s @ [sse_request (self s)]) = Get_Response status (Inr ev # rest) \<and>
         \<not> raise_for_status status \<and> event ev = ''endpoint'' \<and>
         json_loads env (data ev) = Inr (JObj kvs) \<and> map_of kvs ''uri'' = Some (JStr u) \<and>
         str_in ''session_id='' u \<and> urljoin env (base_url (self s)) u = Inr url \<and>
         print_error env (Sse_Connecting (sse_url (self s))) = None \<and>
         print_error env (Sse_Event (event ev) (data ev)) = None \<and>
         print_error env (Sse_SessionId (split_from ''session_id='' [] u ! 1)) = None \<and>
         print_error env (Sse_MessageUrl url) = None)"
  proof (cases rule: connect_sse_cases [of env s])
    case (mute e)
    then show ?thesis by simp
  next
    case no_offer
    then show ?thesis by blast
  next
    case (unwritten status ev rest x)
    then show ?thesis by auto
  next
    case (offer status ev rest kvs u)
    show ?thesis
    proof
      assume "fst (connect_sse env s) = Inr True"
      then show "\<exists>status ev rest kvs u url.
         http_get env (sent s @ [sse_request (self s)]) = Get_Response status (Inr ev # rest) \<and>
         \<not> raise_for_status status \<and> event ev = ''endpoint'' \<and>
         json_loads env (data ev) = Inr (JObj kvs) \<and> map_of kvs ''uri'' = Some (JStr u) \<and>
         str_in ''session_id='' u \<and> urljoin env (base_url (self s)) u = Inr url \<and>
         print_error env (Sse_Connecting (sse_url (self s))) = None \<and>
         print_error env (Sse_Event (event ev) (data ev)) = None \<and>
         print_error env (Sse_SessionId (split_from ''session_id='' [] u ! 1)) = None \<and>
         print_error env (Sse_MessageUrl url) = None"
        using offer by blast
    next
      assume "\<exists>status ev rest kvs u url.
         http_get env (sent s @ [sse_request (self s)]) = Get_Response status (Inr ev # rest) \<and>
         \<not> raise_for_status status \<and> event ev = ''endpoint'' \<and>
         json_loads env (data ev) = Inr (JObj kvs) \<and> map_of kvs ''uri'' = Some (JStr u) \<and>
         str_in ''session_id='' u \<and> urljoin env (base_url (self s)) u = Inr url \<and>
         print_error env (Sse_Connecting (sse_url (self s))) = None \<and>
         print_error env (Sse_Event (event ev) (data ev)) = None \<and>
         print_error env (Sse_SessionId (split_from ''session_id='' [] u ! 1)) = None \<and>
         print_error env (Sse_MessageUrl url) = None"
      then obtain status' ev' rest' kvs' u' url where
        h: "http_get env (sent s @ [sse_request (self s)]) = Get_Response status' (Inr ev' # rest')"
          "json_loads env (data ev') = Inr (JObj kvs')" "map_of kvs' ''uri'' = Some (JStr u')"
          "urljoin env (base_url (self s)) u' = Inr url"
          "print_error env (Sse_SessionId (split_from ''session_id='' [] u' ! 1)) = None"
          "print_error env (Sse_MessageUrl url) = None"
        by blast
      have "ev' = ev" using h(1) offer(1) by simp
      then have "u' = u" using h(2,3) offer(4,5) by simp
      then show "fst (connect_sse env s) = Inr True" using offer(9) h(4,5,6) by blast
    qed
  qed
next
  show "fst (connect_sse env s) = Inr True \<longrightarrow>
      session_id (self (snd (connect_sse env s))) \<noteq> None \<and>
      message_url (self (snd (connect_sse env s))) \<noteq> None"
  proof (cases rule: connect_sse_cases [of env s])
    case (offer status ev rest kvs u)
    show ?thesis
    proof
      assume "fst (connect_sse env s) = Inr True"
      then obtain url where "urljoin env (base_url (self s)) u = Inr url"
        using offer(9) by blast
      then show "session_id (self (snd (connect_sse env s))) \<noteq> None \<and>
          message_url (self (snd (connect_sse env s))) \<noteq> None"
        using offer(10) by simp
    qed
  qed simp_all
next
  show "\<not> (\<exists>status ev rest kvs u.
         http_get env (sent s @ [sse_request (self s)]) = Get_Response status (Inr ev # rest) \<and>
         \<not> raise_for_status status \<and> event ev = ''endpoint'' \<and>
         json_loads env (data ev) = Inr (JObj kvs) \<and> map_of kvs ''uri'' = Some (JStr u) \<and>
         str_in ''session_id='' u) \<longrightarrow>
      fst (connect_sse env s) \<noteq> Inr True \<and> self (snd (connect_sse env s)) = self s"
  proof (cases rule: connect_sse_cases [of env s])
    case (offer status ev rest kvs u)
    then show ?thesis by blast
  qed simp_all
next
  show "print_error env (Sse_Connecting (sse_url (self s))) = None \<and>
      (\<forall>e. print_error env (Sse_Error e) = None) \<longrightarrow>
      fst (connect_sse env s) = Inr True \<or> fst (connect_sse env s) = Inr False"
  proof
    assume "print_error env (Sse_Connecting (sse_url (self s))) = None \<and>
      (\<forall>e. print_error env (Sse_Error e) = None)"
    then obtain b where "fst (connect_sse env s) = Inr b"
      using connect_sse_returns [of env s] by blast
    then show "fst (connect_sse env s) = Inr True \<or> fst (connect_sse env s) = Inr False"
      by (cases b) simp_all
  qed
qed

theorem connect_sse_outcome_witness:
  "fst (connect_sse (mock_server join_path (JObj [(''uri'', JStr ''/msg?session_id=abc123'')])
          200 [Inr endpoint_event, Inl ConnectionError] []) start) = Inr True \<and>
   message_url (self (snd (connect_sse
      (mock_server join_path (JObj [(''uri'', JStr ''/msg?session_id=abc123'')])
          200 [Inr endpoint_event, Inl ConnectionError] []) start))) \<noteq> None \<and>
   fst (connect_sse (mock_server join_path (JObj [(''uri'', JStr ''/msg?session_id=abc123'')])
          200 [Inr \<lparr>event = ''message'', data = ''(data)''\<rparr>, Inr endpoint_event] []) start)
     = Inr False \<and>
   self (snd (connect_sse (mock_server join_path (JObj [(''uri'', JStr ''/msg?session_id=abc123'')])
          200 [Inr \<lparr>event = ''message'', data = ''(data)''\<rparr>, Inr endpoint_event] []) start))
     = self start"
proof -
  let ?good = "mock_server join_path (JObj [(''uri'', JStr ''/msg?session_id=abc123'')])
          200 [Inr endpoint_event, Inl ConnectionError] []"
  let ?bad = "mock_server join_path (JObj [(''uri'', JStr ''/msg?session_id=abc123'')])
          200 [Inr \<lparr>event = ''message'', data = ''(data)''\<rparr>, Inr endpoint_event] []"
  have g: "fst (connect_sse ?good start) = Inr True" by code_simp
  have b: "\<not> (\<exists>status ev rest kvs u.
         http_get ?bad (sent start @ [sse_request (self start)]) =
           Get_Response status (Inr ev # rest) \<and>
         \<not> raise_for_status status \<and> event ev = ''endpoint'' \<and>
         json_loads ?bad (data ev) = Inr (JObj kvs) \<and> map_of kvs ''uri'' = Some (JStr u) \<and>
         str_in ''session_id='' u)"
    by (simp add: mock_server_def)
  have w: "print_error ?bad (Sse_Connecting (sse_url (self start))) = None \<and>
      (\<forall>e. print_error ?bad (Sse_Error e) = None)"
    by (simp add: print_error_def mock_server_def)
  show ?thesis
    using g b w connect_sse_outcome [of ?good start] connect_sse_outcome [of ?bad start]
    by blast
qed

text \<open>
  The claim as worded fails on a status outside 2xx that is no error status: with
  300 and an endpoint event in the body, \<open>raise_for_status\<close> does not raise and the
  handshake succeeds.
\<close>

theorem connect_sse_status_300:
  "\<not> (200 \<le> (300::int) \<and> (300::int) < 300) \<and>
   fst (connect_sse (mock_server join_path (JObj [(''uri'', JStr ''/msg?session_id=abc123'')])
          300 [Inr endpoint_event] []) start) = Inr True \<and>
   message_url (self (snd (connect_sse
      (mock_server join_path (JObj [(''uri'', JStr ''/msg?session_id=abc123'')])
          300 [Inr endpoint_event] []) start))) = Some ''http://localhost:3000/msg?session_id=abc123''"
  by code_simp

text \<open>
  What a print that raises does to the handshake. When the line of the session
  identifier cannot be written, the handler returns \<open>False\<close> after both fields were
  assigned; when the line of the handler cannot be written either, \<open>connect_sse\<close>
  raises.
\<close>

lemma connect_sse_unwritten_session_id:
  "fst (connect_sse (unwritable is_session_line
          (mock_server join_path (JObj [(''uri'', JStr ''/msg?session_id=abc123'')])
             200 [Inr endpoint_event] [])) start) = Inr False \<and>
   message_url (self (snd (connect_sse (unwritable is_session_line
          (mock_server join_path (JObj [(''uri'', JStr ''/msg?session_id=abc123'')])
             200 [Inr endpoint_event] [])) start))) =
     Some ''http://localhost:3000/msg?session_id=abc123'' \<and>
   fst (connect_sse (unwritable (\<lambda>l. \<not> plain l)
          (mock_server join_path (JObj [(''uri'', JStr ''/msg?session_id=abc123'')])
             200 [Inr endpoint_event] [])) start) = Inl UnicodeEncodeError \<and>
   fst (connect_sse (unwritable (\<lambda>l. is_session_line l \<or> l = Sse_Error UnicodeEncodeError)
          (mock_server join_path (JObj [(''uri'', JStr ''/msg?session_id=abc123'')])
             200 [Inr endpoint_event] [])) start) = Inl UnicodeEncodeError"
  by code_simp

subsection \<open>The steps of main: frame\<close>

lemma verdict_self: "self (snd (verdict env r a b s)) = self s"
  by (simp add: verdict_def self_simple_io)

lemma verdict_sent: "sent (snd (verdict env r a b s)) = sent s"
  by (simp add: verdict_def sent_simple_io)

lemma verdict_out: "prefix (out s) (out (snd (verdict env r a b s)))"
  by (simp add: verdict_def out_simple_io)

lemma call_tools_self:
  "self (snd (call_find_tool env t s)) = self s"
  "self (snd (call_save_tool env t s)) = self s"
  "self (snd (call_first_tool env ts s)) = self s"
  unfolding call_find_tool_def call_save_tool_def call_first_tool_def
  by (simp_all add: self_bind_io self_simple_io test_methods_self verdict_self)

lemma select_tools_self: "self (snd (select_tools env ts s)) = self s"
  unfolding select_tools_def
  by (simp add: self_bind_io self_simple_io call_tools_self)

lemma after_list_tools_self: "self (snd (after_list_tools env r s)) = self s"
  unfolding after_list_tools_def
  by (simp add: self_bind_io self_simple_io select_tools_self)

lemma run_tests_self: "self (snd (run_tests env s)) = self s"
  unfolding run_tests_def
  by (simp add: self_bind_io self_simple_io test_methods_self verdict_self
      after_list_tools_self)

lemma main_self: "self (snd (main env)) = self (snd (connect_sse env start))"
proof (cases "connect_sse env start")
  case (Pair r s')
  show ?thesis
  proof (cases r)
    case (Inl e)
    then show ?thesis using Pair by (simp add: main_def bind_io_def)
  next
    case (Inr ok)
    then show ?thesis using Pair
      by (simp add: main_def bind_io_def self_simple_io run_tests_self)
  qed
qed

lemma call_tools_out:
  "prefix (out s) (out (snd (call_find_tool env t s)))"
  "prefix (out s) (out (snd (call_save_tool env t s)))"
  "prefix (out s) (out (snd (call_first_tool env ts s)))"
  unfolding call_find_tool_def call_save_tool_def call_first_tool_def
  by (simp_all add: out_bind_io out_simple_io test_methods_out verdict_out)

lemma select_tools_out: "prefix (out s) (out (snd (select_tools env ts s)))"
  unfolding select_tools_def
  by (simp add: out_bind_io out_simple_io call_tools_out)

lemma after_list_tools_out: "prefix (out s) (out (snd (after_list_tools env r s)))"
  unfolding after_list_tools_def
  by (simp add: out_bind_io out_simple_io select_tools_out)

subsection \<open>Who writes the client\<close>

text \<open>
  Claim C8, as the code has it. The handshake is the only writer of the client, and
  it writes each of the two fields at most once, the session identifier first: it
  leaves the client as it was, or with the session identifier assigned, or with the
  session identifier and the message URL assigned, and every other field as before;
  a handshake that returns \<open>True\<close> has assigned both. \<open>send_mcp_request\<close>, the four
  \<open>test_*\<close> methods and all the steps of \<open>main\<close> after the handshake leave every
  field of the client as it was, so that the client \<open>main\<close> ends with is the one
  its single handshake left.
\<close>

theorem client_written_by_handshake:
  "(self (snd (connect_sse env s)) = self s \<or>
    (\<exists>sid. self (snd (connect_sse env s)) = (self s)\<lparr>session_id := Some sid\<rparr>) \<or>
    (\<exists>sid url. self (snd (connect_sse env s)) =
       (self s)\<lparr>session_id := Some sid, message_url := Some url\<rparr>)) \<and>
   (fst (connect_sse env s) = Inr True \<longrightarrow>
      (\<exists>sid url. self (snd (connect_sse env s)) =
         (self s)\<lparr>session_id := Some sid, message_url := Some url\<rparr>)) \<and>
   self (snd (send_mcp_request env M P I s)) = self s \<and>
   self (snd (test_initialize env s)) = self s \<and>
   self (snd (test_list_tools env s)) = self s \<and>
   self (snd (test_call_tool env n a s)) = self s \<and>
   self (snd (test_call_tool_with_agent_id env n g s)) = self s \<and>
   self (snd (run_tests env s)) = self s \<and>
   self (snd (main env)) = self (snd (connect_sse env start))"
proof -
  have 1: "self (snd (connect_sse env s)) = self s \<or>
    (\<exists>sid. self (snd (connect_sse env s)) = (self s)\<lparr>session_id := Some sid\<rparr>) \<or>
    (\<exists>sid url. self (snd (connect_sse env s)) =
       (self s)\<lparr>session_id := Some sid, message_url := Some url\<rparr>)"
  proof (cases rule: connect_sse_cases [of env s])
    case (mute e)
    then show ?thesis by simp
  next
    case no_offer
    then show ?thesis by simp
  next
    case (unwritten status ev rest x)
    then show ?thesis by simp
  next
    case (offer status ev rest kvs u)
    show ?thesis
    proof (cases "urljoin env (base_url (self s)) u")
      case (Inl e)
      then have "self (snd (connect_sse env s)) =
          (self s)\<lparr>session_id := Some (split_from ''session_id='' [] u ! 1)\<rparr>"
        using offer(10) by simp
      then show ?thesis by blast
    next
      case (Inr url)
      then have "self (snd (connect_sse env s)) =
          (self s)\<lparr>session_id := Some (split_from ''session_id='' [] u ! 1),
                    message_url := Some url\<rparr>"
        using offer(10) by simp
      then show ?thesis by blast
    qed
  qed
  have 2: "fst (connect_sse env s) = Inr True \<longrightarrow>
      (\<exists>sid url. self (snd (connect_sse env s)) =
         (self s)\<lparr>session_id := Some sid, message_url := Some url\<rparr>)"
  proof (cases rule: connect_sse_cases [of env s])
    case (offer status ev rest kvs u)
    show ?thesis
    proof
      assume "fst (connect_sse env s) = Inr True"
      then obtain url where "urljoin env (base_url (self s)) u = Inr url"
        using offer(9) by blast
      then have "self (snd (connect_sse env s)) =
          (self s)\<lparr>session_id := Some (split_from ''session_id='' [] u ! 1),
                    message_url := Some url\<rparr>"
        using offer(10) by simp
      then show "\<exists>sid url. self (snd (connect_sse env s)) =
         (self s)\<lparr>session_id := Some sid, message_url := Some url\<rparr>"
        by blast
    qed
  qed simp_all
  show ?thesis
    using 1 2 by (simp add: send_mcp_request_self test_methods_self run_tests_self main_self)
qed

theorem client_written_by_handshake_witness:
  "fst (connect_sse (scenario (JObj [])) start) = Inr True \<and>
   (\<exists>sid url. self (snd (connect_sse (scenario (JObj [])) start)) =
      (self start)\<lparr>session_id := Some sid, message_url := Some url\<rparr>) \<and>
   self (snd (main (scenario (JObj [])))) = self (snd (connect_sse (scenario (JObj [])) start))"
proof -
  have t: "fst (connect_sse (scenario (JObj [])) start) = Inr True" by code_simp
  show ?thesis
    using t client_written_by_handshake [of "scenario (JObj [])" start]
    by simp
qed

text \<open>
  The claim as worded fails: the session identifier is assigned before \<open>urljoin\<close> is
  called, and nothing takes it back. Where \<open>urljoin\<close> raises \<open>ValueError\<close>, as
  \<open>urllib.parse.urljoin\<close> does on the reference \<open>//[?session_id=abc\<close>, the handshake
  fails and has written the session identifier.
\<close>

theorem connect_sse_partial_write:
  "fst (connect_sse (mock_server (\<lambda>b u. Inl ValueError)
          (JObj [(''uri'', JStr ''//[?session_id=abc'')]) 200 [Inr endpoint_event] []) start)
     = Inr False \<and>
   session_id (self (snd (connect_sse (mock_server (\<lambda>b u. Inl ValueError)
          (JObj [(''uri'', JStr ''//[?session_id=abc'')]) 200 [Inr endpoint_event] []) start)))
     = Some ''abc'' \<and>
   message_url (self (snd (connect_sse (mock_server (\<lambda>b u. Inl ValueError)
          (JObj [(''uri'', JStr ''//[?session_id=abc'')]) 200 [Inr endpoint_event] []) start)))
     = None"
  by code_simp

subsection \<open>The failures of send\_mcp\_request\<close>

lemma send_mcp_request_exchange:
  assumes "message_url (self s) = Some url" and "url \<noteq> []"
    and "print_error env (Req_Sending url) = None"
  shows "send_mcp_request env M P I s =
     exchange env url (mcp_request M P I)
       (print_line (Req_Body (mcp_request M P I)) (print_line (Req_Sending url) s))"
  unfolding send_mcp_request_set [OF assms(1,2)]
  by (simp add: bind_io_print_written [OF assms(3)])

lemma exchange_raises:
  assumes "http_post env (sent w @ [POST url body [(''Content-Type'', ''application/json'')]]) =
      Post_Raises e"
  shows "exchange env url body w =
     request_failed env e None (issue (POST url body [(''Content-Type'', ''application/json'')]) w)"
  using assms by (simp add: exchange_def Let_def sent_issue)

lemma exchange_response:
  assumes "http_post env (sent w @ [POST url body [(''Content-Type'', ''application/json'')]]) =
      Post_Response r"
  shows "exchange env url body w =
     catch_io (read_response env r) (\<lambda>e. request_failed env e (Some r))
       (issue (POST url body [(''Content-Type'', ''application/json'')]) w)"
  using assms by (simp add: exchange_def Let_def sent_issue)

lemma read_response_error_status:
  "raise_for_status (status_code r) \<Longrightarrow> read_response env r w = (Inl HTTPError, w)"
  by (simp add: read_response_def lift_io_def)

lemma read_response_parse_failure:
  "\<not> raise_for_status (status_code r) \<Longrightarrow> content r \<noteq> [] \<Longrightarrow> json_result r = Inl e \<Longrightarrow>
     read_response env r w = (Inl e, w)"
  by (simp add: read_response_def bind_io_lift_Inl)

lemma request_failed_caught:
  "is_RequestException e \<Longrightarrow> print_error env (Req_Error e) = None \<Longrightarrow>
     request_failed env e resp w = (Inr JNull, print_line (Req_Error e) w)"
  "\<not> is_RequestException e \<Longrightarrow> is_JSONDecodeError e \<Longrightarrow>
     print_error env (Json_Error e) = None \<Longrightarrow>
     print_error env (Raw_Response (text_of r)) = None \<Longrightarrow>
     request_failed env e (Some r) w =
       (Inr JNull, print_line (Raw_Response (text_of r)) (print_line (Json_Error e) w))"
  by (simp_all add: request_failed_def bind_io_print_written return_io_def)

lemma request_failed_unwritten:
  "is_RequestException e \<Longrightarrow> print_error env (Req_Error e) = Some x \<Longrightarrow>
     request_failed env e resp w = (Inl x, w)"
  by (simp add: request_failed_def bind_io_print_raises)

text \<open>
  Claim C5, as the code has it. Let the message URL be set and the line that
  announces the request be written. Then each of these makes \<open>send_mcp_request\<close>
  return \<open>None\<close>, without raising, after printing a diagnostic as its last line,
  provided that diagnostic can be written: a \<open>RequestException\<close> raised by the POST;
  a status from 400 to 599; a failure to parse a body that is not empty, where the
  status is no 4xx or 5xx. A parse failure handled as \<open>json.JSONDecodeError\<close> (one
  that is not also a \<open>RequestException\<close>) prints the parse error and then the raw
  text of the response; the other failures print the request error. When the
  diagnostic of a request error cannot be written, what \<open>print\<close> raises reaches the
  caller.
\<close>

theorem send_mcp_request_failures:
  assumes "message_url (self s) = Some url" and "url \<noteq> []"
    and "print_error env (Req_Sending url) = None"
  shows
   "(\<forall>e. http_post env (sent s @ [POST url (mcp_request M P I)
            [(''Content-Type'', ''application/json'')]]) = Post_Raises e \<and>
         is_RequestException e \<and> print_error env (Req_Error e) = None \<longrightarrow>
         fst (send_mcp_request env M P I s) = Inr JNull \<and>
         suffix [Req_Error e] (out (snd (send_mcp_request env M P I s)))) \<and>
    (\<forall>r. http_post env (sent s @ [POST url (mcp_request M P I)
            [(''Content-Type'', ''application/json'')]]) = Post_Response r \<and>
         400 \<le> status_code r \<and> status_code r < 600 \<and>
         print_error env (Req_Error HTTPError) = None \<longrightarrow>
         fst (send_mcp_request env M P I s) = Inr JNull \<and>
         suffix [Req_Error HTTPError] (out (snd (send_mcp_request env M P I s)))) \<and>
    (\<forall>r e. http_post env (sent s @ [POST url (mcp_request M P I)
            [(''Content-Type'', ''application/json'')]]) = Post_Response r \<and>
         \<not> (400 \<le> status_code r \<and> status_code r < 600) \<and> content r \<noteq> [] \<and>
         json_result r = Inl e \<and> is_RequestException e \<and>
         print_error env (Req_Error e) = None \<longrightarrow>
         fst (send_mcp_request env M P I s) = Inr JNull \<and>
         suffix [Req_Error e] (out (snd (send_mcp_request env M P I s)))) \<and>
    (\<forall>r e. http_post env (sent s @ [POST url (mcp_request M P I)
            [(''Content-Type'', ''application/json'')]]) = Post_Response r \<and>
         \<not> (400 \<le> status_code r \<and> status_code r < 600) \<and> content r \<noteq> [] \<and>
         json_result r = Inl e \<and> is_JSONDecodeError e \<and> \<not> is_RequestException e \<and>
         print_error env (Json_Error e) = None \<and>
         print_error env (Raw_Response (text_of r)) = None \<longrightarrow>
         fst (send_mcp_request env M P I s) = Inr JNull \<and>
         suffix [Json_Error e, Raw_Response (text_of r)]
           (out (snd (send_mcp_request env M P I s)))) \<and>
    (\<forall>e x. http_post env (sent s @ [POST url (mcp_request M P I)
            [(''Content-Type'', ''application/json'')]]) = Post_Raises e \<and>
         is_RequestException e \<and> print_error env (Req_Error e) = Some x \<longrightarrow>
         fst (send_mcp_request env M P I s) = Inl x)"
proof -
  define w where
    "w = print_line (Req_Body (mcp_request M P I)) (print_line (Req_Sending url) s)"
  have x: "send_mcp_request env M P I s = exchange env url (mcp_request M P I) w"
    unfolding w_def by (rule send_mcp_request_exchange [OF assms])
  have sw: "sent w = sent s" by (simp add: w_def sent_print_line)
  show ?thesis
  proof (intro conjI allI impI; elim conjE)
    fix e
    assume a: "http_post env (sent s @ [POST url (mcp_request M P I)
          [(''Content-Type'', ''application/json'')]]) = Post_Raises e"
      and b: "is_RequestException e" "print_error env (Req_Error e) = None"
    have "http_post env (sent w @ [POST url (mcp_request M P I)
          [(''Content-Type'', ''application/json'')]]) = Post_Raises e"
      using a sw by simp
    then show "fst (send_mcp_request env M P I s) = Inr JNull"
      and "suffix [Req_Error e] (out (snd (send_mcp_request env M P I s)))"
      unfolding x using b
      by (simp_all add: exchange_raises request_failed_caught suffix_def out_print_line)
  next
    fix r
    assume a: "http_post env (sent s @ [POST url (mcp_request M P I)
          [(''Content-Type'', ''application/json'')]]) = Post_Response r"
      and b: "400 \<le> status_code r" "status_code r < 600"
        "print_error env (Req_Error HTTPError) = None"
    have p: "http_post env (sent w @ [POST url (mcp_request M P I)
          [(''Content-Type'', ''application/json'')]]) = Post_Response r"
      using a sw by simp
    have c: "raise_for_status (status_code r)" using b by (simp add: raise_for_status_def)
    show "fst (send_mcp_request env M P I s) = Inr JNull"
      and "suffix [Req_Error HTTPError] (out (snd (send_mcp_request env M P I s)))"
      unfolding x exchange_response [OF p] using b(3)
      by (simp_all add: catch_io_def read_response_error_status [OF c] request_failed_caught
          suffix_def out_print_line)
  next
    fix r e
    assume a: "http_post env (sent s @ [POST url (mcp_request M P I)
          [(''Content-Type'', ''application/json'')]]) = Post_Response r"
      and b: "\<not> (400 \<le> status_code r \<and> status_code r < 600)" "content r \<noteq> []"
        "json_result r = Inl e"
      and d: "is_RequestException e" "print_error env (Req_Error e) = None"
    have p: "http_post env (sent w @ [POST url (mcp_request M P I)
          [(''Content-Type'', ''application/json'')]]) = Post_Response r"
      using a sw by simp
    have c: "\<not> raise_for_status (status_code r)" using b(1) by (simp add: raise_for_status_def)
    show "fst (send_mcp_request env M P I s) = Inr JNull"
      and "suffix [Req_Error e] (out (snd (send_mcp_request env M P I s)))"
      unfolding x exchange_response [OF p] using d
      by (simp_all add: catch_io_def read_response_parse_failure [OF c b(2,3)]
          request_failed_caught suffix_def out_print_line)
  next
    fix r e
    assume a: "http_post env (sent s @ [POST url (mcp_request M P I)
          [(''Content-Type'', ''application/json'')]]) = Post_Response r"
      and b: "\<not> (400 \<le> status_code r \<and> status_code r < 600)" "content r \<noteq> []"
        "json_result r = Inl e"
      and d: "is_JSONDecodeError e" "\<not> is_RequestException e"
        "print_error env (Json_Error e) = None"
        "print_error env (Raw_Response (text_of r)) = None"
    have p: "http_post env (sent w @ [POST url (mcp_request M P I)
          [(''Content-Type'', ''application/json'')]]) = Post_Response r"
      using a sw by simp
    have c: "\<not> raise_for_status (status_code r)" using b(1) by (simp add: raise_for_status_def)
    show "fst (send_mcp_request env M P I s) = Inr JNull"
      and "suffix [Json_Error e, Raw_Response (text_of r)]
           (out (snd (send_mcp_request env M P I s)))"
      unfolding x exchange_response [OF p] using d
      by (simp_all add: catch_io_def read_response_parse_failure [OF c b(2,3)]
          request_failed_caught suffix_def out_print_line)
  next
    fix e x'
    assume a: "http_post env (sent s @ [POST url (mcp_request M P I)
          [(''Content-Type'', ''application/json'')]]) = Post_Raises e"
      and b: "is_RequestException e" "print_error env (Req_Error e) = Some x'"
    have "http_post env (sent w @ [POST url (mcp_request M P I)
          [(''Content-Type'', ''application/json'')]]) = Post_Raises e"
      using a sw by simp
    then show "fst (send_mcp_request env M P I s) = Inl x'"
      unfolding x using b
      by (simp add: exchange_raises request_failed_unwritten)
  qed
qed

theorem send_mcp_request_failures_witness:
  "fst (send_mcp_request
          (mock_server join_path JNull 200 []
             [Post_Response \<lparr>status_code = 500, content = ''not json'', text_of = ''not json'',
                              json_result = Inl JSONDecodeError\<rparr>])
          ''tools/list'' None 1 ready) = Inr JNull \<and>
   suffix [Req_Error HTTPError]
     (out (snd (send_mcp_request
          (mock_server join_path JNull 200 []
             [Post_Response \<lparr>status_code = 500, content = ''not json'', text_of = ''not json'',
                              json_result = Inl JSONDecodeError\<rparr>])
          ''tools/list'' None 1 ready))) \<and>
   fst (send_mcp_request
          (mock_server join_path JNull 200 []
             [Post_Response \<lparr>status_code = 200, content = ''not json'', text_of = ''not json'',
                              json_result = Inl JSONDecodeError\<rparr>])
          ''tools/list'' None 1 ready) = Inr JNull \<and>
   suffix [Json_Error JSONDecodeError, Raw_Response ''not json'']
     (out (snd (send_mcp_request
          (mock_server join_path JNull 200 []
             [Post_Response \<lparr>status_code = 200, content = ''not json'', text_of = ''not json'',
                              json_result = Inl JSONDecodeError\<rparr>])
          ''tools/list'' None 1 ready))) \<and>
   fst (send_mcp_request
          (unwritable (\<lambda>l. l = Req_Error ConnectionError) (mock_server join_path JNull 200 [] []))
          ''tools/list'' None 1 ready) = Inl UnicodeEncodeError"
proof -
  let ?url = "''http://localhost:3000/msg?session_id=abc123''"
  let ?r5 = "\<lparr>status_code = 500, content = ''not json'', text_of = ''not json'',
              json_result = Inl JSONDecodeError\<rparr>"
  let ?r2 = "\<lparr>status_code = 200, content = ''not json'', text_of = ''not json'',
              json_result = Inl JSONDecodeError\<rparr>"
  let ?e5 = "mock_server join_path JNull 200 [] [Post_Response ?r5]"
  let ?e2 = "mock_server join_path JNull 200 [] [Post_Response ?r2]"
  let ?e0 = "unwritable (\<lambda>l. l = Req_Error ConnectionError)
      (mock_server join_path JNull 200 [] [])"
  have a: "message_url (self ready) = Some ?url" by (simp add: ready_def)
  have b: "?url \<noteq> []" by simp
  have w5: "print_error ?e5 l = None" for l by (simp add: print_error_def mock_server_def)
  have w2: "print_error ?e2 l = None" for l by (simp add: print_error_def mock_server_def)
  have w0: "print_error ?e0 (Req_Sending ?url) = None"
    by (simp add: print_error_def mock_server_def unwritable_def)
  have x0: "print_error ?e0 (Req_Error ConnectionError) = Some UnicodeEncodeError"
    by (simp add: print_error_def mock_server_def unwritable_def)
  have p5: "http_post ?e5 (sent ready @ [POST ?url (mcp_request ''tools/list'' None 1)
      [(''Content-Type'', ''application/json'')]]) = Post_Response ?r5"
    by (simp add: mock_server_def ready_def)
  have p2: "http_post ?e2 (sent ready @ [POST ?url (mcp_request ''tools/list'' None 1)
      [(''Content-Type'', ''application/json'')]]) = Post_Response ?r2"
    by (simp add: mock_server_def ready_def)
  have p0: "http_post ?e0 (sent ready @ [POST ?url (mcp_request ''tools/list'' None 1)
      [(''Content-Type'', ''application/json'')]]) = Post_Raises ConnectionError"
    by (simp add: mock_server_def ready_def unwritable_def)
  have "fst (send_mcp_request ?e5 ''tools/list'' None 1 ready) = Inr JNull \<and>
      suffix [Req_Error HTTPError] (out (snd (send_mcp_request ?e5 ''tools/list'' None 1 ready)))"
    using send_mcp_request_failures [OF a b w5, of "''tools/list''" None 1] p5 w5 by simp
  moreover have "fst (send_mcp_request ?e2 ''tools/list'' None 1 ready) = Inr JNull \<and>
      suffix [Json_Error JSONDecodeError, Raw_Response (text_of ?r2)]
        (out (snd (send_mcp_request ?e2 ''tools/list'' None 1 ready)))"
    using send_mcp_request_failures [OF a b w2, of "''tools/list''" None 1] p2 w2 by simp
  moreover have "fst (send_mcp_request ?e0 ''tools/list'' None 1 ready) = Inl UnicodeEncodeError"
    using send_mcp_request_failures [OF a b w0, of "''tools/list''" None 1] p0 x0 by simp
  ultimately show ?thesis by simp
qed

text \<open>
  The claim as worded fails on a status outside 2xx that is no error status: the
  answer 304 with an empty body is reported as a success.
\<close>

theorem send_mcp_request_status_304:
  "\<not> (200 \<le> (304::int) \<and> (304::int) < 300) \<and>
   fst (send_mcp_request (mock_server join_path JNull 200 [] [empty_reply 304])
          ''tools/list'' None 1 ready) =
     Inr (JObj [(''status'', JStr ''success''), (''status_code'', JInt 304)]) \<and>
   fst (send_mcp_request (mock_server join_path JNull 200 [] [empty_reply 304])
          ''tools/list'' None 1 ready) \<noteq> Inr JNull"
  by code_simp

subsection \<open>The verdicts of main\<close>

lemma verdict_plain:
  "plain ok \<Longrightarrow> plain failed \<Longrightarrow>
     verdict env r ok failed s = (Inr (), print_line (if truthy r then ok else failed) s)"
  by (simp add: verdict_def print_io_plain)

lemma run_tests_after_init:
  assumes "test_initialize env (print_line Sse_Ok s) = (Inr r1, s1)"
  shows "run_tests env s =
     bind_io (test_list_tools env) (\<lambda>tools_result.
     bind_io (after_list_tools env tools_result) (\<lambda>u. print_io env Done))
       (print_line (if truthy r1 then Init_Ok else Init_Failed) s1)"
proof -
  have "run_tests env s =
      bind_io (verdict env r1 Init_Ok Init_Failed) (\<lambda>u.
      bind_io (test_list_tools env) (\<lambda>tools_result.
      bind_io (after_list_tools env tools_result) (\<lambda>u. print_io env Done))) s1"
    unfolding run_tests_def using assms by (simp add: bind_io_print_plain) (simp add: bind_io_def)
  then show ?thesis by (simp add: bind_io_def verdict_plain)
qed

lemma run_tests_after_list:
  assumes "test_initialize env (print_line Sse_Ok s) = (Inr r1, s1)"
    and "test_list_tools env (print_line (if truthy r1 then Init_Ok else Init_Failed) s1) =
      (Inr r2, s2)"
  shows "run_tests env s = bind_io (after_list_tools env r2) (\<lambda>u. print_io env Done) s2"
  unfolding run_tests_after_init [OF assms(1)] using assms(2) by (simp add: bind_io_def)

lemma after_list_tools_falsy:
  "\<not> truthy r \<Longrightarrow> after_list_tools env r s = (Inr (), print_line List_Failed s)"
  by (simp add: after_list_tools_def print_io_plain)

lemma after_list_tools_truthy:
  "truthy r \<Longrightarrow> after_list_tools env r s =
     bind_io (lift_io (has_result_tools r)) (\<lambda>present.
        if present then
          bind_io (lift_io (py_getitem r ''result'')) (\<lambda>result.
          bind_io (lift_io (py_getitem result ''tools'')) (\<lambda>tools.
          if truthy tools then select_tools env tools else return_io ()))
        else return_io ()) (print_line List_Ok s)"
  by (simp add: after_list_tools_def bind_io_print_plain)

lemma after_list_tools_verdict:
  "prefix (out s @ [if truthy r then List_Ok else List_Failed])
     (out (snd (after_list_tools env r s)))"
proof (cases "truthy r")
  case False
  then show ?thesis by (simp add: after_list_tools_falsy out_print_line)
next
  case True
  have "prefix (out (print_line List_Ok s))
     (out (snd (bind_io (lift_io (has_result_tools r)) (\<lambda>present.
        if present then
          bind_io (lift_io (py_getitem r ''result'')) (\<lambda>result.
          bind_io (lift_io (py_getitem result ''tools'')) (\<lambda>tools.
          if truthy tools then select_tools env tools else return_io ()))
        else return_io ()) (print_line List_Ok s))))"
    by (simp add: out_bind_io out_simple_io select_tools_out)
  then show ?thesis using True by (simp add: after_list_tools_truthy out_print_line)
qed

lemma send_mcp_request_returns_body:
  assumes "message_url (self s) = Some url" and "url \<noteq> []"
    and "print_error env (Req_Sending url) = None"
    and "http_post env (sent s @ [POST url (mcp_request M P I)
          [(''Content-Type'', ''application/json'')]]) = Post_Response r"
    and "\<not> raise_for_status (status_code r)" and "content r \<noteq> []"
    and "json_result r = Inr v" and "print_error env (Resp_Body v) = None"
  shows "fst (send_mcp_request env M P I s) = Inr v"
proof -
  define w where
    "w = print_line (Req_Body (mcp_request M P I)) (print_line (Req_Sending url) s)"
  have x: "send_mcp_request env M P I s = exchange env url (mcp_request M P I) w"
    unfolding w_def by (rule send_mcp_request_exchange [OF assms(1-3)])
  have p: "http_post env (sent w @ [POST url (mcp_request M P I)
          [(''Content-Type'', ''application/json'')]]) = Post_Response r"
    using assms(4) by (simp add: w_def sent_print_line)
  have "read_response env r z =
      (Inr v, print_line (Resp_Body v) (print_line (Resp_Status (status_code r)) z))" for z
    using assms(5-8)
    by (simp add: read_response_def bind_io_lift_Inr bind_io_print_plain bind_io_print_written
        return_io_def)
  then show ?thesis
    unfolding x exchange_response [OF p] by (simp add: catch_io_def)
qed

text \<open>
  Claim C9. A body that parses to the empty object is returned as that object by
  \<open>send_mcp_request\<close> (message URL set, status no 4xx or 5xx, the line announcing the
  request written). \<open>main\<close> tests the truth value of what a step returned, and the
  empty object is as false as \<open>None\<close>. Whatever the initialize step returns, the line
  after its output is the success line when the value is true and the failure line
  otherwise; the same holds of the tools/list step, and a false value there ends
  the run with the closing line, nothing being looked up or called. Each of the
  three tool calls is followed, in the same way, by the success or the failure line
  of its branch.
\<close>

theorem step_verdicts_test_truthiness:
  "(\<forall>url r. message_url (self s) = Some url \<and> url \<noteq> [] \<and>
        print_error env (Req_Sending url) = None \<and>
        http_post env (sent s @ [POST url (mcp_request M P I)
          [(''Content-Type'', ''application/json'')]]) = Post_Response r \<and>
        \<not> (400 \<le> status_code r \<and> status_code r < 600) \<and> content r \<noteq> [] \<and>
        json_result r = Inr (JObj []) \<longrightarrow>
        fst (send_mcp_request env M P I s) = Inr (JObj [])) \<and>
   \<not> truthy (JObj []) \<and> \<not> truthy JNull \<and>
   (\<forall>r1 s1. test_initialize env (print_line Sse_Ok s) = (Inr r1, s1) \<longrightarrow>
        prefix (out s1 @ [if truthy r1 then Init_Ok else Init_Failed])
          (out (snd (run_tests env s)))) \<and>
   (\<forall>r1 s1 r2 s2. test_initialize env (print_line Sse_Ok s) = (Inr r1, s1) \<and>
        test_list_tools env (print_line (if truthy r1 then Init_Ok else Init_Failed) s1) =
          (Inr r2, s2) \<longrightarrow>
        prefix (out s2 @ [if truthy r2 then List_Ok else List_Failed])
          (out (snd (run_tests env s))) \<and>
        (\<not> truthy r2 \<longrightarrow>
           run_tests env s = (Inr (), print_line Done (print_line List_Failed s2)))) \<and>
   (\<forall>n r s1. py_get t ''name'' JNull = Inr n \<and>
        test_call_tool_with_agent_id env n ''98e2b1cf-3a7d-4f6c-9b0a-5d8c7e6f5432'' s =
          (Inr r, s1) \<longrightarrow>
        call_find_tool env t s = print_io env (if truthy r then Call_Ok n else Call_Failed n) s1) \<and>
   (\<forall>n r s1. py_get t ''name'' JNull = Inr n \<and>
        test_call_tool env n (Some body_arguments) s = (Inr r, s1) \<longrightarrow>
        call_save_tool env t s = print_io env (if truthy r then Post_Ok n else Post_Failed n) s1) \<and>
   (\<forall>f n r s1. py_first ts = Inr f \<and> py_get f ''name'' JNull = Inr n \<and> truthy n \<and>
        test_call_tool env n None s = (Inr r, s1) \<longrightarrow>
        call_first_tool env ts s = print_io env (if truthy r then Call_Ok n else Call_Failed n) s1)"
proof (intro conjI allI impI; (elim conjE)?)
  fix url r
  assume "message_url (self s) = Some url" "url \<noteq> []"
    "print_error env (Req_Sending url) = None"
    "http_post env (sent s @ [POST url (mcp_request M P I)
          [(''Content-Type'', ''application/json'')]]) = Post_Response r"
    "\<not> (400 \<le> status_code r \<and> status_code r < 600)" "content r \<noteq> []"
    "json_result r = Inr (JObj [])"
  moreover from this have "\<not> raise_for_status (status_code r)"
    by (simp add: raise_for_status_def)
  moreover have "print_error env (Resp_Body (JObj [])) = None"
    by (simp add: print_error_def)
  ultimately show "fst (send_mcp_request env M P I s) = Inr (JObj [])"
    using send_mcp_request_returns_body [of s url env M P I r "JObj []"] by blast
next
  show "\<not> truthy (JObj [])" by simp
  show "\<not> truthy JNull" by simp
next
  fix r1 s1
  assume i: "test_initialize env (print_line Sse_Ok s) = (Inr r1, s1)"
  have "prefix (out w)
      (out (snd (bind_io (test_list_tools env) (\<lambda>tools_result.
         bind_io (after_list_tools env tools_result) (\<lambda>u. print_io env Done)) w)))" for w
    by (simp add: out_bind_io out_simple_io test_methods_out after_list_tools_out)
  from this [of "print_line (if truthy r1 then Init_Ok else Init_Failed) s1"]
  show "prefix (out s1 @ [if truthy r1 then Init_Ok else Init_Failed])
          (out (snd (run_tests env s)))"
    unfolding run_tests_after_init [OF i] by (simp add: out_print_line)
next
  fix r1 s1 r2 s2
  assume i: "test_initialize env (print_line Sse_Ok s) = (Inr r1, s1)"
    and l: "test_list_tools env (print_line (if truthy r1 then Init_Ok else Init_Failed) s1) =
          (Inr r2, s2)"
  have a: "prefix (out s2 @ [if truthy r2 then List_Ok else List_Failed])
      (out (snd (after_list_tools env r2 s2)))"
    by (rule after_list_tools_verdict)
  have b: "prefix (out (snd (after_list_tools env r2 s2)))
      (out (snd (bind_io (after_list_tools env r2) (\<lambda>u. print_io env Done) s2)))"
  proof (cases "after_list_tools env r2 s2")
    case (Pair x s3)
    then show ?thesis by (cases x) (simp_all add: bind_io_def out_simple_io)
  qed
  show "prefix (out s2 @ [if truthy r2 then List_Ok else List_Failed])
          (out (snd (run_tests env s)))"
    unfolding run_tests_after_list [OF i l] using a b by (rule prefix_order.trans)
  show "run_tests env s = (Inr (), print_line Done (print_line List_Failed s2))"
    if "\<not> truthy r2"
    unfolding run_tests_after_list [OF i l]
    by (simp add: after_list_tools_falsy [OF that] bind_io_def print_io_plain)
next
  fix n r s1
  assume "py_get t ''name'' JNull = Inr n"
    and "test_call_tool_with_agent_id env n ''98e2b1cf-3a7d-4f6c-9b0a-5d8c7e6f5432'' s =
          (Inr r, s1)"
  then show "call_find_tool env t s =
      print_io env (if truthy r then Call_Ok n else Call_Failed n) s1"
    by (simp add: call_find_tool_def bind_io_lift_Inr bind_io_def verdict_def)
next
  fix n r s1
  assume "py_get t ''name'' JNull = Inr n"
    and "test_call_tool env n (Some body_arguments) s = (Inr r, s1)"
  then show "call_save_tool env t s =
      print_io env (if truthy r then Post_Ok n else Post_Failed n) s1"
    by (simp add: call_save_tool_def bind_io_lift_Inr bind_io_def verdict_def body_arguments_def)
next
  fix f n r s1
  assume "py_first ts = Inr f" and "py_get f ''name'' JNull = Inr n" and "truthy n"
    and "test_call_tool env n None s = (Inr r, s1)"
  then show "call_first_tool env ts s =
      print_io env (if truthy r then Call_Ok n else Call_Failed n) s1"
    by (simp add: call_first_tool_def bind_io_lift_Inr bind_io_def verdict_def)
qed
theorem step_verdicts_test_truthiness_witness:
  "fst (send_mcp_request (mock_server join_path JNull 200 [] [reply (JObj []), reply (JObj [])])
          ''initialize'' None 1 ready) = Inr (JObj []) \<and>
   prefix (out (snd (test_initialize
                  (mock_server join_path JNull 200 [] [reply (JObj []), reply (JObj [])])
                  (print_line Sse_Ok ready))) @ [Init_Failed])
     (out (snd (run_tests (mock_server join_path JNull 200 [] [reply (JObj []), reply (JObj [])])
                  ready))) \<and>
   run_tests (mock_server join_path JNull 200 [] [reply (JObj []), reply (JObj [])]) ready =
     (Inr (), print_line Done (print_line List_Failed
        (snd (test_list_tools
                (mock_server join_path JNull 200 [] [reply (JObj []), reply (JObj [])])
                (print_line Init_Failed
                   (snd (test_initialize
                      (mock_server join_path JNull 200 [] [reply (JObj []), reply (JObj [])])
                      (print_line Sse_Ok ready)))))))) \<and>
   prefix (out (snd (test_initialize
                  (mock_server join_path JNull 200 []
                     [reply (JObj [(''result'', JObj [])]), reply (JObj [(''result'', JObj [])])])
                  (print_line Sse_Ok ready))) @ [Init_Ok])
     (out (snd (run_tests (mock_server join_path JNull 200 []
                     [reply (JObj [(''result'', JObj [])]), reply (JObj [(''result'', JObj [])])])
                  ready))) \<and>
   prefix (out (snd (test_list_tools
                  (mock_server join_path JNull 200 []
                     [reply (JObj [(''result'', JObj [])]), reply (JObj [(''result'', JObj [])])])
                  (print_line Init_Ok (snd (test_initialize
                     (mock_server join_path JNull 200 []
                        [reply (JObj [(''result'', JObj [])]), reply (JObj [(''result'', JObj [])])])
                     (print_line Sse_Ok ready)))))) @ [List_Ok])
     (out (snd (run_tests (mock_server join_path JNull 200 []
                     [reply (JObj [(''result'', JObj [])]), reply (JObj [(''result'', JObj [])])])
                  ready)))"
proof -
  let ?url = "''http://localhost:3000/msg?session_id=abc123''"
  let ?E1 = "mock_server join_path JNull 200 [] [reply (JObj []), reply (JObj [])]"
  let ?E2 = "mock_server join_path JNull 200 []
      [reply (JObj [(''result'', JObj [])]), reply (JObj [(''result'', JObj [])])]"
  let ?r = "\<lparr>status_code = 200, content = ''(body)'', text_of = ''(body)'',
             json_result = Inr (JObj [])\<rparr>"
  let ?a1 = "snd (test_initialize ?E1 (print_line Sse_Ok ready))"
  let ?b1 = "snd (test_list_tools ?E1
      (print_line (if truthy (JObj []) then Init_Ok else Init_Failed) ?a1))"
  let ?a2 = "snd (test_initialize ?E2 (print_line Sse_Ok ready))"
  let ?b2 = "snd (test_list_tools ?E2
      (print_line (if truthy (JObj [(''result'', JObj [])]) then Init_Ok else Init_Failed) ?a2))"
  note t1 = step_verdicts_test_truthiness [of ready ?E1 "''initialize''" None 1]
  note t2 = step_verdicts_test_truthiness [of ready ?E2 "''initialize''" None 1]
  have u: "message_url (self ready) = Some ?url \<and> ?url \<noteq> [] \<and>
      print_error ?E1 (Req_Sending ?url) = None"
    by (simp add: ready_def print_error_def mock_server_def)
  have p: "http_post ?E1 (sent ready @ [POST ?url (mcp_request ''initialize'' None 1)
      [(''Content-Type'', ''application/json'')]]) = Post_Response ?r"
    by (simp add: mock_server_def ready_def reply_def)
  have q: "\<not> (400 \<le> status_code ?r \<and> status_code ?r < 600) \<and> content ?r \<noteq> [] \<and>
      json_result ?r = Inr (JObj [])"
    by simp
  have 1: "fst (send_mcp_request ?E1 ''initialize'' None 1 ready) = Inr (JObj [])"
    using t1 u p q by blast
  have "fst (test_initialize ?E1 (print_line Sse_Ok ready)) = Inr (JObj [])" by code_simp
  then have i1: "test_initialize ?E1 (print_line Sse_Ok ready) = (Inr (JObj []), ?a1)"
    by (metis prod.collapse)
  have "fst (test_list_tools ?E1
      (print_line (if truthy (JObj []) then Init_Ok else Init_Failed) ?a1)) = Inr (JObj [])"
    by code_simp
  then have l1: "test_list_tools ?E1
      (print_line (if truthy (JObj []) then Init_Ok else Init_Failed) ?a1) = (Inr (JObj []), ?b1)"
    by (metis prod.collapse)
  have "fst (test_initialize ?E2 (print_line Sse_Ok ready)) = Inr (JObj [(''result'', JObj [])])"
    by code_simp
  then have i2: "test_initialize ?E2 (print_line Sse_Ok ready) =
      (Inr (JObj [(''result'', JObj [])]), ?a2)"
    by (metis prod.collapse)
  have "fst (test_list_tools ?E2
      (print_line (if truthy (JObj [(''result'', JObj [])]) then Init_Ok else Init_Failed) ?a2)) =
      Inr (JObj [(''result'', JObj [])])"
    by code_simp
  then have l2: "test_list_tools ?E2
      (print_line (if truthy (JObj [(''result'', JObj [])]) then Init_Ok else Init_Failed) ?a2) =
      (Inr (JObj [(''result'', JObj [])]), ?b2)"
    by (metis prod.collapse)
  have 2: "prefix (out ?a1 @ [if truthy (JObj []) then Init_Ok else Init_Failed])
      (out (snd (run_tests ?E1 ready)))"
    using t1 i1 by blast
  have 3: "\<not> truthy (JObj []) \<longrightarrow>
      run_tests ?E1 ready = (Inr (), print_line Done (print_line List_Failed ?b1))"
    using t1 i1 l1 by blast
  have 4: "prefix (out ?a2 @ [if truthy (JObj [(''result'', JObj [])]) then Init_Ok else Init_Failed])
      (out (snd (run_tests ?E2 ready)))"
    using t2 i2 by blast
  have 5: "prefix (out ?b2 @ [if truthy (JObj [(''result'', JObj [])]) then List_Ok else List_Failed])
      (out (snd (run_tests ?E2 ready)))"
    using t2 i2 l2 by blast
  show ?thesis using 1 2 3 4 5 by simp
qed

subsection \<open>A tools/list answer without tools\<close>

lemma after_list_tools_no_tools:
  assumes "map_of kvs ''result'' = None \<or>
     (\<exists>res. map_of kvs ''result'' = Some (JObj res) \<and>
        (map_of res ''tools'' = None \<or> map_of res ''tools'' = Some (JArr [])))"
  shows "after_list_tools env (JObj kvs) s =
     (Inr (), print_line (if kvs = [] then List_Failed else List_Ok) s)"
proof (cases "kvs = []")
  case True
  then show ?thesis by (simp add: after_list_tools_falsy)
next
  case False
  then have t: "truthy (JObj kvs)" by simp
  from assms consider
      (no_result) "map_of kvs ''result'' = None"
    | (no_tools) res where "map_of kvs ''result'' = Some (JObj res)" "map_of res ''tools'' = None"
    | (empty_tools) res where "map_of kvs ''result'' = Some (JObj res)"
        "map_of res ''tools'' = Some (JArr [])"
    by auto
  then show ?thesis
  proof cases
    case no_result
    then have "has_result_tools (JObj kvs) = Inr False" by (simp add: has_result_tools_def)
    then show ?thesis using False
      by (simp add: after_list_tools_truthy [OF t] bind_io_lift_Inr return_io_def)
  next
    case no_tools
    then have "has_result_tools (JObj kvs) = Inr False" by (simp add: has_result_tools_def)
    then show ?thesis using False
      by (simp add: after_list_tools_truthy [OF t] bind_io_lift_Inr return_io_def)
  next
    case empty_tools
    then have "has_result_tools (JObj kvs) = Inr True" by (simp add: has_result_tools_def)
    then show ?thesis using False empty_tools
      by (simp add: after_list_tools_truthy [OF t] bind_io_lift_Inr return_io_def)
  qed
qed

text \<open>
  Where the tools/list step returns an object that has no \<open>result\<close> key, or whose
  \<open>result\<close> is an object with no \<open>tools\<close> key or with \<open>tools\<close> the empty list, the run
  ends normally: after the verdict on the list step the closing line is printed, and
  nothing is sent after the tools/list request.
\<close>

lemma run_tests_no_tools:
  assumes "test_initialize env (print_line Sse_Ok s) = (Inr r1, s1)"
    and "test_list_tools env (print_line (if truthy r1 then Init_Ok else Init_Failed) s1) =
           (Inr (JObj kvs), s2)"
    and "map_of kvs ''result'' = None \<or>
     (\<exists>res. map_of kvs ''result'' = Some (JObj res) \<and>
        (map_of res ''tools'' = None \<or> map_of res ''tools'' = Some (JArr [])))"
  shows "run_tests env s =
           (Inr (), print_line Done (print_line (if kvs = [] then List_Failed else List_Ok) s2))"
    and "sent (snd (run_tests env s)) = sent s2"
proof -
  show "run_tests env s =
      (Inr (), print_line Done (print_line (if kvs = [] then List_Failed else List_Ok) s2))"
    unfolding run_tests_after_list [OF assms(1,2)]
    by (simp add: bind_io_def print_io_plain after_list_tools_no_tools [OF assms(3)])
  then show "sent (snd (run_tests env s)) = sent s2" by (simp add: sent_print_line)
qed

text \<open>
  Claim C7, at the input where the code departs from it. The claim: when the
  tools/list response lacks the \<open>result\<close> or \<open>tools\<close> keys, or holds an empty tools
  list, no \<open>tools/call\<close> is attempted, no error is raised, and the run goes on to the
  completion banner. The server answers tools/list with a JSON-RPC response whose
  \<open>result\<close> is \<open>null\<close>. The response is true and has the key \<open>result\<close>, so the test
  \<open>'tools' in tools_result['result']\<close> is evaluated on \<open>None\<close> and raises \<open>TypeError\<close>:
  \<open>main\<close> ends with that exception, after the success line of the list step, and
  the completion banner is not printed. No \<open>tools/call\<close> is sent.
\<close>

theorem main_null_result:
  "map_of [(''jsonrpc'', JStr ''2.0''), (''id'', JInt 1), (''result'', JNull)] ''result'' =
     Some JNull \<and>
   py_in ''tools'' JNull = Inl TypeError \<and>
   fst (main (scenario (JObj [(''jsonrpc'', JStr ''2.0''), (''id'', JInt 1),
                              (''result'', JNull)]))) = Inl TypeError \<and>
   last (out (snd (main (scenario (JObj [(''jsonrpc'', JStr ''2.0''), (''id'', JInt 1),
                              (''result'', JNull)]))))) = List_Ok \<and>
   Done \<notin> set (out (snd (main (scenario (JObj [(''jsonrpc'', JStr ''2.0''), (''id'', JInt 1),
                              (''result'', JNull)]))))) \<and>
   length (filter is_POST (sent (snd (main (scenario
      (JObj [(''jsonrpc'', JStr ''2.0''), (''id'', JInt 1), (''result'', JNull)])))))) = 2"
  by code_simp

text \<open>The same run with an empty tools list, as the specification has it.\<close>

lemma main_empty_tools:
  "fst (main (scenario (JObj [(''jsonrpc'', JStr ''2.0''), (''id'', JInt 1),
                              (''result'', JObj [(''tools'', JArr [])])]))) = Inr () \<and>
   last (out (snd (main (scenario (JObj [(''jsonrpc'', JStr ''2.0''), (''id'', JInt 1),
                              (''result'', JObj [(''tools'', JArr [])])]))))) = Done \<and>
   length (filter is_POST (sent (snd (main (scenario
      (JObj [(''jsonrpc'', JStr ''2.0''), (''id'', JInt 1),
             (''result'', JObj [(''tools'', JArr [])])])))))) = 2"
  by code_simp

subsection \<open>Tools without a name\<close>

lemma nameless_get:
  "nameless t \<Longrightarrow> py_get t ''name'' d = Inr d"
  by (cases t) (simp_all add: nameless_def)

lemma scan_tools_nameless:
  "nameless t \<Longrightarrow> sub \<noteq> [] \<Longrightarrow> scan_tools sub (t # rest) = scan_tools sub rest"
  by (simp add: nameless_get)

lemma scan_tools_skips_nameless:
  "sub \<noteq> [] \<Longrightarrow> scan_tools sub ts = scan_tools sub (filter (\<lambda>t. \<not> nameless t) ts)"
  by (induction ts) (auto simp: nameless_get split: sum.splits)

lemma call_first_tool_nameless:
  "nameless t \<Longrightarrow> call_first_tool env (JArr (t # rest)) = return_io ()"
  by (rule ext)
    (simp add: call_first_tool_def py_index_def bind_io_lift_Inr nameless_get)

lemma bind_io_return_right: "bind_io m return_io = m"
  by (rule ext) (simp add: bind_io_def return_io_def split: prod.splits sum.splits)

lemma select_tools_nameless_first:
  assumes "nameless t" and "scan_tools ''save'' rest = Inr v" and "\<not> truthy v"
  shows "select_tools env (JArr (t # rest)) s =
     bind_io (lift_io (scan_tools ''findByAgentId'' rest)) (\<lambda>find_tool.
       if truthy find_tool then call_find_tool env find_tool else return_io ()) s"
proof -
  have f: "find_tool_named ''findByAgentId'' (JArr (t # rest)) = scan_tools ''findByAgentId'' rest"
    using scan_tools_nameless [OF assms(1), of "''findByAgentId''" rest]
    by (simp add: find_tool_named_def)
  have v: "find_tool_named ''save'' (JArr (t # rest)) = Inr v"
    using scan_tools_nameless [OF assms(1), of "''save''" rest] assms(2)
    by (simp add: find_tool_named_def)
  show ?thesis
    unfolding select_tools_def f v
    using assms(3)
    by (simp add: bind_io_lift_Inr call_first_tool_nameless [OF assms(1)] bind_io_return_right)
qed

lemma select_tools_all_nameless:
  assumes "ts \<noteq> []" and "\<forall>u\<in>set ts. nameless u"
  shows "select_tools env (JArr ts) s = (Inr (), s)"
proof -
  obtain t rest where ts: "ts = t # rest" using assms(1) by (cases ts) simp_all
  have e: "filter (\<lambda>t. \<not> nameless t) rest = []" using assms(2) ts by simp
  have "scan_tools sub rest = Inr JNull" if "sub \<noteq> []" for sub
    using scan_tools_skips_nameless [OF that, of rest] e by simp
  then have "scan_tools ''save'' rest = Inr JNull" "scan_tools ''findByAgentId'' rest = Inr JNull"
    by simp_all
  moreover have "nameless t" using assms(2) ts by simp
  ultimately show ?thesis
    unfolding ts
    by (simp add: select_tools_nameless_first [where v = JNull] bind_io_lift_Inr return_io_def)
qed

text \<open>
  Claim C10. A tool descriptor without a \<open>name\<close> field raises nothing anywhere in the
  selection. Both searches give what they give on the list without the nameless
  tools: such a tool is passed over, it is not matched and it does not raise. When
  the first tool of the list is nameless, the fallback does nothing at all: it
  returns normally in the state it started in, with nothing sent and nothing
  printed; so a selection that reaches the fallback, no tool name containing
  \<open>save\<close>, consists of the search for \<open>findByAgentId\<close> and its call alone. And a list
  of nameless tools goes through the whole selection with no effect and no
  exception.
\<close>

theorem nameless_tools_raise_nothing:
  "scan_tools ''findByAgentId'' ts =
     scan_tools ''findByAgentId'' (filter (\<lambda>t. \<not> nameless t) ts) \<and>
   scan_tools ''save'' ts = scan_tools ''save'' (filter (\<lambda>t. \<not> nameless t) ts) \<and>
   (nameless t \<longrightarrow> call_first_tool env (JArr (t # rest)) s = (Inr (), s)) \<and>
   (nameless t \<longrightarrow>
      (\<forall>v. scan_tools ''save'' rest = Inr v \<and> \<not> truthy v \<longrightarrow>
         select_tools env (JArr (t # rest)) s =
           bind_io (lift_io (scan_tools ''findByAgentId'' rest)) (\<lambda>find_tool.
             if truthy find_tool then call_find_tool env find_tool else return_io ()) s)) \<and>
   (ts \<noteq> [] \<and> (\<forall>u\<in>set ts. nameless u) \<longrightarrow> select_tools env (JArr ts) s = (Inr (), s))"
proof (intro conjI allI impI; (elim conjE)?)
  show "scan_tools ''findByAgentId'' ts =
     scan_tools ''findByAgentId'' (filter (\<lambda>t. \<not> nameless t) ts)"
    by (rule scan_tools_skips_nameless) simp
  show "scan_tools ''save'' ts = scan_tools ''save'' (filter (\<lambda>t. \<not> nameless t) ts)"
    by (rule scan_tools_skips_nameless) simp
next
  assume "nameless t"
  then show "call_first_tool env (JArr (t # rest)) s = (Inr (), s)"
    by (simp add: call_first_tool_nameless return_io_def)
next
  fix v
  assume "nameless t" and "scan_tools ''save'' rest = Inr v" and "\<not> truthy v"
  then show "select_tools env (JArr (t # rest)) s =
           bind_io (lift_io (scan_tools ''findByAgentId'' rest)) (\<lambda>find_tool.
             if truthy find_tool then call_find_tool env find_tool else return_io ()) s"
    by (rule select_tools_nameless_first)
next
  assume "ts \<noteq> []" and "\<forall>u\<in>set ts. nameless u"
  then show "select_tools env (JArr ts) s = (Inr (), s)"
    by (rule select_tools_all_nameless)
qed

theorem nameless_tools_raise_nothing_witness:
  "scan_tools ''findByAgentId'' [JObj [], JObj [(''name'', JStr ''findByAgentIdTool'')]] =
     Inr (JObj [(''name'', JStr ''findByAgentIdTool'')]) \<and>
   call_first_tool (mock_server join_path JNull 200 [] [reply (JObj [(''result'', JObj [])])])
     (JArr [JObj [], JObj [(''name'', JStr ''findByAgentIdTool'')]]) ready = (Inr (), ready) \<and>
   sent (snd (select_tools (mock_server join_path JNull 200 [] [reply (JObj [(''result'', JObj [])])])
     (JArr [JObj [], JObj [(''name'', JStr ''findByAgentIdTool'')]]) ready)) =
     [tools_call ''http://localhost:3000/msg?session_id=abc123'' ''findByAgentIdTool''
        agent_arguments] \<and>
   select_tools (mock_server join_path JNull 200 [] [reply (JObj [(''result'', JObj [])])])
     (JArr [JObj [], JObj [(''description'', JStr ''no name'')]]) ready = (Inr (), ready)"
proof -
  let ?env = "mock_server join_path JNull 200 [] [reply (JObj [(''result'', JObj [])])]"
  let ?f = "JObj [(''name'', JStr ''findByAgentIdTool'')]"
  let ?d = "JObj [(''description'', JStr ''no name'')]"
  have n: "nameless (JObj [])" "nameless ?d" by (simp_all add: nameless_def)
  have k: "filter (\<lambda>t. \<not> nameless t) [JObj [], ?f] = [?f]" by (simp add: nameless_def)
  have v: "scan_tools ''save'' [?f] = Inr JNull \<and> \<not> truthy JNull" by simp
  have a: "[JObj [], ?d] \<noteq> [] \<and> (\<forall>u\<in>set [JObj [], ?d]. nameless u)" using n by simp
  note t1 = nameless_tools_raise_nothing [of "[JObj [], ?f]" "JObj []" ?env "[?f]" ready]
  note t2 = nameless_tools_raise_nothing [of "[JObj [], ?d]" "JObj []" ?env "[?d]" ready]
  have 1: "scan_tools ''findByAgentId'' [JObj [], ?f] = scan_tools ''findByAgentId'' [?f]"
    using t1 k by simp
  have 2: "call_first_tool ?env (JArr [JObj [], ?f]) ready = (Inr (), ready)"
    using t1 n by blast
  have 3: "select_tools ?env (JArr [JObj [], ?f]) ready =
      bind_io (lift_io (scan_tools ''findByAgentId'' [?f])) (\<lambda>find_tool.
        if truthy find_tool then call_find_tool ?env find_tool else return_io ()) ready"
    using t1 n v by blast
  have 4: "sent (snd (bind_io (lift_io (scan_tools ''findByAgentId'' [?f])) (\<lambda>find_tool.
        if truthy find_tool then call_find_tool ?env find_tool else return_io ()) ready)) =
      [tools_call ''http://localhost:3000/msg?session_id=abc123'' ''findByAgentIdTool''
        agent_arguments]"
    by code_simp
  have 5: "select_tools ?env (JArr [JObj [], ?d]) ready = (Inr (), ready)"
    using t2 a by blast
  have 6: "scan_tools ''findByAgentId'' [?f] = Inr ?f" by simp
  show ?thesis using 1 2 3 4 5 6 by simp
qed

text \<open>
  The run of \<open>main\<close> on a tools list whose first tool has no name and whose second is
  a \<open>findByAgentId\<close> tool: nothing is raised, and the one \<open>tools/call\<close> is that of the
  \<open>findByAgentId\<close> tool.
\<close>

lemma main_nameless_first_tool:
  "fst (main (scenario (JObj [(''result'', JObj [(''tools'',
      JArr [JObj [], JObj [(''name'', JStr ''findByAgentIdTool'')]])])]))) = Inr () \<and>
   drop 3 (sent (snd (main (scenario (JObj [(''result'', JObj [(''tools'',
      JArr [JObj [], JObj [(''name'', JStr ''findByAgentIdTool'')]])])]))))) =
     [tools_call ''http://localhost:3000/msg?session_id=abc123'' ''findByAgentIdTool''
        agent_arguments]"
  by code_simp

subsection \<open>The tool selection\<close>

lemma bind_io_Inr_elim:
  assumes "fst (bind_io m f s) = Inr y"
  obtains x s' where "m s = (Inr x, s')" and "bind_io m f s = f x s'"
proof (cases "m s")
  case (Pair r s')
  show ?thesis
  proof (cases r)
    case (Inl e)
    then have "fst (bind_io m f s) = Inl e" using Pair by (simp add: bind_io_def)
    then show ?thesis using assms by simp
  next
    case (Inr x)
    then have "m s = (Inr x, s')" "bind_io m f s = f x s'"
      using Pair by (simp_all add: bind_io_def)
    then show ?thesis by (rule that)
  qed
qed

text \<open>A request that has returned was sent.\<close>

lemma send_mcp_request_returned:
  assumes "message_url (self s) = Some url" and "url \<noteq> []"
    and "fst (send_mcp_request env M P I s) = Inr r"
  shows "sent (snd (send_mcp_request env M P I s)) =
     sent s @ [POST url (mcp_request M P I) [(''Content-Type'', ''application/json'')]]"
proof (cases "print_error env (Req_Sending url)")
  case None
  then show ?thesis by (simp add: send_mcp_request_sent [OF assms(1,2)])
next
  case (Some e)
  then have "send_mcp_request env M P I s = (Inl e, s)"
    unfolding send_mcp_request_set [OF assms(1,2)] by (rule bind_io_print_raises)
  then show ?thesis using assms(3) by simp
qed

lemma headed_request_returned:
  assumes "message_url (self s) = Some url" and "url \<noteq> []"
    and "fst (bind_io (print_io env l) (\<lambda>u. send_mcp_request env M P I) s) = Inr r"
  shows "sent (snd (bind_io (print_io env l) (\<lambda>u. send_mcp_request env M P I) s)) =
     sent s @ [POST url (mcp_request M P I) [(''Content-Type'', ''application/json'')]]"
proof -
  from assms(3) obtain x s0 where p: "print_io env l s = (Inr x, s0)"
    and e: "bind_io (print_io env l) (\<lambda>u. send_mcp_request env M P I) s =
      send_mcp_request env M P I s0"
    by (rule bind_io_Inr_elim)
  have "self s0 = self s" "sent s0 = sent s"
    using self_simple_io(3) [of env l s] sent_simple_io(3) [of env l s] p by simp_all
  then show ?thesis
    using send_mcp_request_returned [of s0 url env M P I r] assms e by simp
qed

lemma test_call_tool_sent:
  assumes "message_url (self s) = Some url" and "url \<noteq> []"
    and "fst (test_call_tool env (JStr n) a s) = Inr r"
  shows "sent (snd (test_call_tool env (JStr n) a s)) =
     sent s @ [tools_call url n (case a of None \<Rightarrow> [] | Some p \<Rightarrow> p)]"
  using headed_request_returned [OF assms(1,2) assms(3) [unfolded test_call_tool_def]]
  by (simp add: test_call_tool_def tools_call_def mcp_request_def or_empty_eq)

lemma test_call_tool_with_agent_id_sent:
  assumes "message_url (self s) = Some url" and "url \<noteq> []"
    and "fst (test_call_tool_with_agent_id env (JStr n) g s) = Inr r"
  shows "sent (snd (test_call_tool_with_agent_id env (JStr n) g s)) =
     sent s @ [tools_call url n [(''agentId'', JStr g)]]"
  using headed_request_returned [OF assms(1,2)
      assms(3) [unfolded test_call_tool_with_agent_id_def]]
  by (simp add: test_call_tool_with_agent_id_def tools_call_def mcp_request_def or_empty_eq)

lemma descriptor_get:
  "descriptor t \<Longrightarrow> py_get t ''name'' (JStr []) = Inr (JStr (tool_name t))"
  by (auto simp: descriptor_def tool_name_def split: json.splits option.splits)

lemma descriptor_named_get:
  "descriptor t \<Longrightarrow> tool_name t \<noteq> [] \<Longrightarrow> py_get t ''name'' JNull = Inr (JStr (tool_name t))"
  by (auto simp: descriptor_def tool_name_def split: json.splits option.splits)

lemma descriptor_nameless_get:
  "descriptor t \<Longrightarrow> tool_name t = [] \<Longrightarrow>
     \<exists>v. py_get t ''name'' JNull = Inr v \<and> \<not> truthy v"
  by (auto simp: descriptor_def tool_name_def split: json.splits option.splits)

lemma descriptor_named_truthy: "descriptor t \<Longrightarrow> tool_name t \<noteq> [] \<Longrightarrow> truthy t"
  by (auto simp: descriptor_def tool_name_def split: json.splits option.splits)

lemma scan_tools_descriptors:
  "\<forall>t\<in>set ts. descriptor t \<Longrightarrow>
     scan_tools sub ts = Inr (case first_named sub ts of None \<Rightarrow> JNull | Some t \<Rightarrow> t)"
  by (induction ts) (simp_all add: first_named_def descriptor_get)

lemma first_named_Some:
  "first_named sub ts = Some t \<Longrightarrow> t \<in> set ts \<and> str_in sub (tool_name t)"
  unfolding first_named_def by (auto simp: find_Some_iff)

lemma find_tool_named_descriptors:
  assumes "\<forall>t\<in>set ts. descriptor t"
  shows "find_tool_named sub (JArr ts) =
     Inr (case first_named sub ts of None \<Rightarrow> JNull | Some t \<Rightarrow> t)"
  using scan_tools_descriptors [OF assms] by (simp add: find_tool_named_def)

lemma first_named_found:
  assumes "\<forall>t\<in>set ts. descriptor t" and "first_named sub ts = Some t" and "sub \<noteq> []"
  shows "descriptor t" and "tool_name t \<noteq> []" and "truthy t"
proof -
  have i: "t \<in> set ts" "str_in sub (tool_name t)"
    using first_named_Some [OF assms(2)] by simp_all
  show d: "descriptor t" using assms(1) i(1) by blast
  show n: "tool_name t \<noteq> []" using str_in_not_Nil [OF assms(3) i(2)] .
  show "truthy t" using descriptor_named_truthy [OF d n] .
qed

lemma call_find_tool_sent:
  assumes "message_url (self s) = Some url" and "url \<noteq> []"
    and "descriptor f" and "tool_name f \<noteq> []"
    and "fst (call_find_tool env f s) = Inr ()"
  shows "sent (snd (call_find_tool env f s)) = sent s @ [tools_call url (tool_name f) agent_arguments]"
proof -
  have c: "call_find_tool env f s =
      bind_io (test_call_tool_with_agent_id env (JStr (tool_name f))
                ''98e2b1cf-3a7d-4f6c-9b0a-5d8c7e6f5432'')
        (\<lambda>call_result. verdict env call_result (Call_Ok (JStr (tool_name f)))
                          (Call_Failed (JStr (tool_name f)))) s"
    by (simp add: call_find_tool_def descriptor_named_get [OF assms(3,4)] bind_io_lift_Inr)
  from assms(5) [unfolded c] obtain r s1 where
    t: "test_call_tool_with_agent_id env (JStr (tool_name f))
          ''98e2b1cf-3a7d-4f6c-9b0a-5d8c7e6f5432'' s = (Inr r, s1)"
    and e: "call_find_tool env f s =
      verdict env r (Call_Ok (JStr (tool_name f))) (Call_Failed (JStr (tool_name f))) s1"
    unfolding c by (rule bind_io_Inr_elim)
  have "sent s1 = sent s @ [tools_call url (tool_name f) agent_arguments]"
    using test_call_tool_with_agent_id_sent [OF assms(1,2), of env "tool_name f"
        "''98e2b1cf-3a7d-4f6c-9b0a-5d8c7e6f5432''" r] t
    by (simp add: agent_arguments_def)
  then show ?thesis unfolding e by (simp add: verdict_sent)
qed

lemma call_save_tool_sent:
  assumes "message_url (self s) = Some url" and "url \<noteq> []"
    and "descriptor v" and "tool_name v \<noteq> []"
    and "fst (call_save_tool env v s) = Inr ()"
  shows "sent (snd (call_save_tool env v s)) = sent s @ [tools_call url (tool_name v) body_arguments]"
proof -
  have c: "call_save_tool env v s =
      bind_io (test_call_tool env (JStr (tool_name v)) (Some body_arguments))
        (\<lambda>call_result. verdict env call_result (Post_Ok (JStr (tool_name v)))
                          (Post_Failed (JStr (tool_name v)))) s"
    by (simp add: call_save_tool_def descriptor_named_get [OF assms(3,4)] bind_io_lift_Inr
        body_arguments_def)
  from assms(5) [unfolded c] obtain r s1 where
    t: "test_call_tool env (JStr (tool_name v)) (Some body_arguments) s = (Inr r, s1)"
    and e: "call_save_tool env v s =
      verdict env r (Post_Ok (JStr (tool_name v))) (Post_Failed (JStr (tool_name v))) s1"
    unfolding c by (rule bind_io_Inr_elim)
  have "sent s1 = sent s @ [tools_call url (tool_name v) body_arguments]"
    using test_call_tool_sent [OF assms(1,2), of env "tool_name v" "Some body_arguments" r] t
    by simp
  then show ?thesis unfolding e by (simp add: verdict_sent)
qed

lemma call_first_tool_sent:
  assumes "message_url (self s) = Some url" and "url \<noteq> []"
    and "ts \<noteq> []" and "descriptor (hd ts)"
    and "fst (call_first_tool env (JArr ts) s) = Inr ()"
  shows "sent (snd (call_first_tool env (JArr ts) s)) =
     sent s @ (if tool_name (hd ts) = [] then [] else [tools_call url (tool_name (hd ts)) []])"
proof -
  have h: "py_index ts 0 = Inr (hd ts)"
    using assms(3) by (cases ts) (simp_all add: py_index_def)
  show ?thesis
  proof (cases "tool_name (hd ts) = []")
    case True
    then obtain v where "py_get (hd ts) ''name'' JNull = Inr v" and "\<not> truthy v"
      using descriptor_nameless_get [OF assms(4)] by blast
    then show ?thesis using True
      by (simp add: call_first_tool_def h bind_io_lift_Inr return_io_def)
  next
    case False
    have c: "call_first_tool env (JArr ts) s =
        bind_io (test_call_tool env (JStr (tool_name (hd ts))) None)
          (\<lambda>call_result. verdict env call_result (Call_Ok (JStr (tool_name (hd ts))))
                            (Call_Failed (JStr (tool_name (hd ts))))) s"
      using False
      by (simp add: call_first_tool_def h descriptor_named_get [OF assms(4) False]
          bind_io_lift_Inr)
    from assms(5) [unfolded c] obtain r s1 where
      t: "test_call_tool env (JStr (tool_name (hd ts))) None s = (Inr r, s1)"
      and e: "call_first_tool env (JArr ts) s =
        verdict env r (Call_Ok (JStr (tool_name (hd ts))))
          (Call_Failed (JStr (tool_name (hd ts)))) s1"
      unfolding c by (rule bind_io_Inr_elim)
    have "sent s1 = sent s @ [tools_call url (tool_name (hd ts)) []]"
      using test_call_tool_sent [OF assms(1,2), of env "tool_name (hd ts)" None r] t by simp
    then show ?thesis unfolding e using False by (simp add: verdict_sent)
  qed
qed

lemma select_tools_steps:
  assumes "\<forall>t\<in>set ts. descriptor t"
  shows "select_tools env (JArr ts) s =
     bind_io (case first_named ''findByAgentId'' ts of
                None \<Rightarrow> return_io ()
              | Some f \<Rightarrow> if truthy f then call_find_tool env f else return_io ())
       (\<lambda>u. case first_named ''save'' ts of
               None \<Rightarrow> call_first_tool env (JArr ts)
             | Some v \<Rightarrow> if truthy v then call_save_tool env v
                         else call_first_tool env (JArr ts)) s"
  by (simp add: select_tools_def find_tool_named_descriptors [OF assms] bind_io_lift_Inr
      split: option.splits)

text \<open>
  Claim C1, as the code has it. \<open>main\<close> runs \<open>select_tools\<close> on a \<open>result.tools\<close> that
  is true. Let the message URL be set, the tools be a list of descriptors that is not
  empty, and the selection return normally. The two searches are independent. When a
  tool name contains \<open>save\<close>, the first such tool is called with the body object, after
  the call of the first tool whose name contains \<open>findByAgentId\<close> with the agent id, if
  there is one: two calls then, otherwise one. When no tool name contains either, the
  first tool of the list is called with no arguments if it has a name that is not
  empty, and nothing is called otherwise. When a tool name contains \<open>findByAgentId\<close>
  and none contains \<open>save\<close>, the call of the first such tool is the first request
  issued and at most one request follows it. In every case at most two requests are
  issued.
\<close>

theorem select_tools_calls:
  assumes "message_url (self s) = Some url" and "url \<noteq> []"
    and "ts \<noteq> []" and "\<forall>t\<in>set ts. descriptor t"
    and "fst (select_tools env (JArr ts) s) = Inr ()"
  shows
   "(\<forall>f v. first_named ''findByAgentId'' ts = Some f \<and> first_named ''save'' ts = Some v \<longrightarrow>
        sent (snd (select_tools env (JArr ts) s)) =
          sent s @ [tools_call url (tool_name f) agent_arguments,
                    tools_call url (tool_name v) body_arguments]) \<and>
    (\<forall>v. first_named ''findByAgentId'' ts = None \<and> first_named ''save'' ts = Some v \<longrightarrow>
        sent (snd (select_tools env (JArr ts) s)) =
          sent s @ [tools_call url (tool_name v) body_arguments]) \<and>
    (first_named ''findByAgentId'' ts = None \<and> first_named ''save'' ts = None \<longrightarrow>
        sent (snd (select_tools env (JArr ts) s)) =
          sent s @ (if tool_name (hd ts) = [] then []
                    else [tools_call url (tool_name (hd ts)) []])) \<and>
    (\<forall>f. first_named ''findByAgentId'' ts = Some f \<and> first_named ''save'' ts = None \<longrightarrow>
        (\<exists>zs. sent (snd (select_tools env (JArr ts) s)) =
           sent s @ tools_call url (tool_name f) agent_arguments # zs \<and> length zs \<le> 1)) \<and>
    length (sent (snd (select_tools env (JArr ts) s))) \<le> length (sent s) + 2"
proof -
  define A where "A = (case first_named ''findByAgentId'' ts of
                None \<Rightarrow> return_io ()
              | Some f \<Rightarrow> if truthy f then call_find_tool env f else return_io ())"
  define B where "B = (case first_named ''save'' ts of
               None \<Rightarrow> call_first_tool env (JArr ts)
             | Some v \<Rightarrow> if truthy v then call_save_tool env v
                         else call_first_tool env (JArr ts))"
  have st: "select_tools env (JArr ts) s = bind_io A (\<lambda>u. B) s"
    unfolding A_def B_def by (rule select_tools_steps [OF assms(4)])
  from assms(5) [unfolded st] obtain x sa where a: "A s = (Inr x, sa)"
    and sb': "bind_io A (\<lambda>u. B) s = B sa"
    by (rule bind_io_Inr_elim)
  have sb: "select_tools env (JArr ts) s = B sa" unfolding st by (rule sb')
  have rb: "fst (B sa) = Inr ()" using assms(5) unfolding sb .
  have find_some: "sent sa = sent s @ [tools_call url (tool_name f) agent_arguments] \<and>
      self sa = self s"
    if "first_named ''findByAgentId'' ts = Some f" for f
  proof -
    have d: "descriptor f" "tool_name f \<noteq> []" "truthy f"
      using first_named_found [OF assms(4) that] by simp_all
    have c: "A s = call_find_tool env f s" unfolding A_def using that d(3) by simp
    have r: "fst (call_find_tool env f s) = Inr ()" by (simp add: c [symmetric] a)
    have "sa = snd (call_find_tool env f s)" using a c by (metis snd_conv)
    then show ?thesis
      using call_find_tool_sent [OF assms(1,2) d(1,2) r] call_tools_self(1) [of env f s]
      by simp
  qed
  have find_none: "sent sa = sent s \<and> self sa = self s"
    if "first_named ''findByAgentId'' ts = None"
  proof -
    have "A s = (Inr (), s)" unfolding A_def using that by (simp add: return_io_def)
    then show ?thesis using a by simp
  qed
  have ma: "message_url (self sa) = Some url"
    using find_some find_none assms(1) by (cases "first_named ''findByAgentId'' ts") auto
  have save_some: "sent (snd (B sa)) = sent sa @ [tools_call url (tool_name v) body_arguments]"
    if "first_named ''save'' ts = Some v" for v
  proof -
    have d: "descriptor v" "tool_name v \<noteq> []" "truthy v"
      using first_named_found [OF assms(4) that] by simp_all
    have c: "B sa = call_save_tool env v sa" unfolding B_def using that d(3) by simp
    have "fst (call_save_tool env v sa) = Inr ()" using rb by (simp add: c [symmetric])
    then show ?thesis using call_save_tool_sent [OF ma assms(2) d(1,2)] c by simp
  qed
  have save_none: "sent (snd (B sa)) =
      sent sa @ (if tool_name (hd ts) = [] then [] else [tools_call url (tool_name (hd ts)) []])"
    if "first_named ''save'' ts = None"
  proof -
    have h: "descriptor (hd ts)" using assms(3,4) by simp
    have c: "B sa = call_first_tool env (JArr ts) sa" unfolding B_def using that by simp
    have "fst (call_first_tool env (JArr ts) sa) = Inr ()" using rb by (simp add: c [symmetric])
    then show ?thesis using call_first_tool_sent [OF ma assms(2,3) h] c by simp
  qed
  have 1: "sent (snd (select_tools env (JArr ts) s)) =
          sent s @ [tools_call url (tool_name f) agent_arguments,
                    tools_call url (tool_name v) body_arguments]"
    if "first_named ''findByAgentId'' ts = Some f" and "first_named ''save'' ts = Some v" for f v
    unfolding sb using find_some [OF that(1)] save_some [OF that(2)] by simp
  have 2: "sent (snd (select_tools env (JArr ts) s)) =
          sent s @ [tools_call url (tool_name v) body_arguments]"
    if "first_named ''findByAgentId'' ts = None" and "first_named ''save'' ts = Some v" for v
    unfolding sb using find_none [OF that(1)] save_some [OF that(2)] by simp
  have 3: "sent (snd (select_tools env (JArr ts) s)) =
          sent s @ (if tool_name (hd ts) = [] then []
                    else [tools_call url (tool_name (hd ts)) []])"
    if "first_named ''findByAgentId'' ts = None" and "first_named ''save'' ts = None"
    unfolding sb using find_none [OF that(1)] save_none [OF that(2)] by simp
  have 4: "\<exists>zs. sent (snd (select_tools env (JArr ts) s)) =
           sent s @ tools_call url (tool_name f) agent_arguments # zs \<and> length zs \<le> 1"
    if "first_named ''findByAgentId'' ts = Some f" and "first_named ''save'' ts = None" for f
    unfolding sb using find_some [OF that(1)] save_none [OF that(2)] by simp
  have 5: "length (sent (snd (select_tools env (JArr ts) s))) \<le> length (sent s) + 2"
  proof (cases "first_named ''findByAgentId'' ts")
    case None
    then show ?thesis using 2 3 by (cases "first_named ''save'' ts") auto
  next
    case (Some f)
    then show ?thesis using 1 4 by (cases "first_named ''save'' ts") auto
  qed
  show ?thesis using 1 2 3 4 5 by blast
qed
theorem select_tools_calls_witness:
  "sent (snd (select_tools
       (mock_server join_path JNull 200 []
          [reply (JObj [(''result'', JObj [])]), reply (JObj [(''result'', JObj [])])])
       (JArr [JObj [(''name'', JStr ''a'')], JObj [(''name'', JStr ''xfindByAgentIdSuffix'')],
              JObj [(''name'', JStr ''saveThing'')], JObj [(''name'', JStr ''save2'')]])
       ready)) =
     [tools_call ''http://localhost:3000/msg?session_id=abc123'' ''xfindByAgentIdSuffix''
        agent_arguments,
      tools_call ''http://localhost:3000/msg?session_id=abc123'' ''saveThing'' body_arguments] \<and>
   sent (snd (select_tools
       (mock_server join_path JNull 200 [] [reply (JObj [(''result'', JObj [])])])
       (JArr [JObj [(''name'', JStr ''a'')], JObj [(''name'', JStr ''b'')]])
       ready)) =
     [tools_call ''http://localhost:3000/msg?session_id=abc123'' ''a'' []] \<and>
   (\<exists>zs. sent (snd (select_tools
       (mock_server join_path JNull 200 []
          [reply (JObj [(''result'', JObj [])]), reply (JObj [(''result'', JObj [])])])
       (JArr [JObj [], JObj [(''name'', JStr ''findByAgentIdTool'')]])
       ready)) =
     tools_call ''http://localhost:3000/msg?session_id=abc123'' ''findByAgentIdTool''
        agent_arguments # zs \<and> length zs \<le> 1)"
proof -
  let ?e2 = "mock_server join_path JNull 200 []
          [reply (JObj [(''result'', JObj [])]), reply (JObj [(''result'', JObj [])])]"
  let ?e1 = "mock_server join_path JNull 200 [] [reply (JObj [(''result'', JObj [])])]"
  let ?ts = "[JObj [(''name'', JStr ''a'')], JObj [(''name'', JStr ''xfindByAgentIdSuffix'')],
              JObj [(''name'', JStr ''saveThing'')], JObj [(''name'', JStr ''save2'')]]"
  let ?us = "[JObj [(''name'', JStr ''a'')], JObj [(''name'', JStr ''b'')]]"
  let ?vs = "[JObj [], JObj [(''name'', JStr ''findByAgentIdTool'')]]"
  have a: "message_url (self ready) = Some ''http://localhost:3000/msg?session_id=abc123''"
    by (simp add: ready_def)
  have b: "''http://localhost:3000/msg?session_id=abc123'' \<noteq> []" by simp
  have c: "sent ready = []" by (simp add: ready_def)
  have t1: "?ts \<noteq> []" and u1: "?us \<noteq> []" and v1: "?vs \<noteq> []" by simp_all
  have t2: "\<forall>t\<in>set ?ts. descriptor t" and u2: "\<forall>t\<in>set ?us. descriptor t"
    and v2: "\<forall>t\<in>set ?vs. descriptor t"
    by (simp_all add: descriptor_def)
  have t3: "fst (select_tools ?e2 (JArr ?ts) ready) = Inr ()" by code_simp
  have u3: "fst (select_tools ?e1 (JArr ?us) ready) = Inr ()" by code_simp
  have v3: "fst (select_tools ?e2 (JArr ?vs) ready) = Inr ()" by code_simp
  have t4: "first_named ''findByAgentId'' ?ts = Some (JObj [(''name'', JStr ''xfindByAgentIdSuffix'')])"
    by code_simp
  have t5: "first_named ''save'' ?ts = Some (JObj [(''name'', JStr ''saveThing'')])"
    by code_simp
  have u4: "first_named ''findByAgentId'' ?us = None" by code_simp
  have u5: "first_named ''save'' ?us = None" by code_simp
  have v4: "first_named ''findByAgentId'' ?vs = Some (JObj [(''name'', JStr ''findByAgentIdTool'')])"
    by code_simp
  have v5: "first_named ''save'' ?vs = None" by code_simp
  have n1: "tool_name (JObj [(''name'', JStr ''xfindByAgentIdSuffix'')]) = ''xfindByAgentIdSuffix''"
    and n2: "tool_name (JObj [(''name'', JStr ''saveThing'')]) = ''saveThing''"
    and n3: "tool_name (hd ?us) = ''a''"
    and n4: "tool_name (JObj [(''name'', JStr ''findByAgentIdTool'')]) = ''findByAgentIdTool''"
    by (simp_all add: tool_name_def)
  have "sent (snd (select_tools ?e2 (JArr ?ts) ready)) =
      [tools_call ''http://localhost:3000/msg?session_id=abc123'' ''xfindByAgentIdSuffix''
         agent_arguments,
       tools_call ''http://localhost:3000/msg?session_id=abc123'' ''saveThing'' body_arguments]"
    using select_tools_calls [OF a b t1 t2 t3] t4 t5 c n1 n2 by simp
  moreover have "sent (snd (select_tools ?e1 (JArr ?us) ready)) =
      [tools_call ''http://localhost:3000/msg?session_id=abc123'' ''a'' []]"
    using select_tools_calls [OF a b u1 u2 u3] u4 u5 c n3 by simp
  moreover have "\<exists>zs. sent (snd (select_tools ?e2 (JArr ?vs) ready)) =
      tools_call ''http://localhost:3000/msg?session_id=abc123'' ''findByAgentIdTool''
        agent_arguments # zs \<and> length zs \<le> 1"
    using select_tools_calls [OF a b v1 v2 v3] v4 v5 c n4 by simp
  ultimately show ?thesis by simp
qed

text \<open>
  The claim as worded fails on its own example: for the tools \<open>a\<close>,
  \<open>findByAgentIdTool\<close>, \<open>saveThing\<close> the run issues two calls after tools/list, the
  second one to \<open>saveThing\<close>.
\<close>

theorem main_calls_find_and_save:
  "fst (main (scenario (JObj [(''result'', JObj [(''tools'',
      JArr [JObj [(''name'', JStr ''a'')],
            JObj [(''name'', JStr ''findByAgentIdTool'')],
            JObj [(''name'', JStr ''saveThing'')]])])]))) = Inr () \<and>
   drop 3 (sent (snd (main (scenario (JObj [(''result'', JObj [(''tools'',
      JArr [JObj [(''name'', JStr ''a'')],
            JObj [(''name'', JStr ''findByAgentIdTool'')],
            JObj [(''name'', JStr ''saveThing'')]])])]))))) =
     [tools_call ''http://localhost:3000/msg?session_id=abc123'' ''findByAgentIdTool''
        agent_arguments,
      tools_call ''http://localhost:3000/msg?session_id=abc123'' ''saveThing'' body_arguments]"
  by code_simp

end
